theory Spec2Isabelle
  imports Complex_Main
begin

section \<open>Data model of LDAModel.hpp\<close>

text \<open>
  The embedding follows \<^verbatim>\<open>src/TopicModel/LDAModel.hpp\<close>. The class template
  \<^verbatim>\<open>LDAModel<_TW, _Shared>\<close> is modelled for \<^verbatim>\<open>_Shared = false\<close> (its default); the
  template parameter \<^verbatim>\<open>_TW\<close> is the field \<open>tw\<close> of the model.

  Numbers. \<^verbatim>\<open>FLOAT\<close> (single precision) and \<^verbatim>\<open>double\<close> are modelled by \<open>real\<close>: rounding
  and overflow are not modelled. \<^verbatim>\<open>WeightType\<close> is \<^verbatim>\<open>int32_t\<close> for \<^verbatim>\<open>TermWeight::one\<close>
  and \<^verbatim>\<open>float\<close> otherwise; both are embedded in \<open>real\<close> (in mode \<open>one\<close> every count is an
  integer, and counts stay far below \<open>2^31\<close>). Topic ids, vocabulary ids, sizes and
  loop counters are \<open>nat\<close>.
\<close>

type_synonym FLOAT = real
type_synonym TID = nat
type_synonym VID = nat

text \<open>A \<^verbatim>\<open>RANDGEN\<close> is the state of a pseudo-random generator, coded as a number.\<close>

type_synonym RANDGEN = nat

datatype TermWeight = TW_one | TW_idf | TW_pmi | TW_size

datatype error = ConfigError | UsageError | TrainingError

text \<open>
  What the header uses and does not define (\<^verbatim>\<open>Utils/math.h\<close>, \<^verbatim>\<open>Utils/Utils.hpp\<close>,
  \<^verbatim>\<open>Utils/sample.hpp\<close>, \<^verbatim>\<open>TopicModel.hpp\<close>, the standard library) is a parameter of
  the model, collected in one record:
  \<^item> \<open>digammaT\<close>, \<open>lgammaT\<close>: \<^verbatim>\<open>math::digammaT\<close>, \<^verbatim>\<open>math::lgammaT\<close>;
  \<^item> \<open>updateCnt dec val inc\<close>: the new value that \<^verbatim>\<open>updateCnt<dec>(val, inc)\<close> stores in \<open>val\<close>;
  \<^item> \<open>rand_raw\<close>: \<^verbatim>\<open>rg()\<close>, one raw output and the next generator state;
  \<^item> \<open>rand_tid a b\<close>: a draw of \<^verbatim>\<open>std::uniform_int_distribution<TID>{a, b}\<close>;
  \<^item> \<open>rand_unit\<close>: a uniform draw in \<open>[0, 1)\<close>;
  \<^item> \<open>seed_rg\<close>: \<^verbatim>\<open>RANDGEN(seed)\<close>; \<open>default_rg\<close>: \<^verbatim>\<open>RANDGEN{}\<close>;
  \<^item> \<open>forRandom n seed\<close>: the order in which \<^verbatim>\<open>forRandom(n, seed, f)\<close> calls \<open>f\<close>;
  \<^item> \<open>TID_MAX\<close>: the largest value of the unsigned type \<^verbatim>\<open>TID\<close>;
  \<^item> \<open>hardware_concurrency\<close>: \<^verbatim>\<open>std::thread::hardware_concurrency()\<close>.
\<close>

record externals =
  digammaT :: "real \<Rightarrow> real"
  lgammaT :: "real \<Rightarrow> real"
  updateCnt :: "bool \<Rightarrow> real \<Rightarrow> real \<Rightarrow> real"
  rand_raw :: "RANDGEN \<Rightarrow> nat \<times> RANDGEN"
  rand_tid :: "TID \<Rightarrow> TID \<Rightarrow> RANDGEN \<Rightarrow> TID \<times> RANDGEN"
  rand_unit :: "RANDGEN \<Rightarrow> real \<times> RANDGEN"
  seed_rg :: "nat \<Rightarrow> RANDGEN"
  default_rg :: RANDGEN
  forRandom :: "nat \<Rightarrow> nat \<Rightarrow> nat list"
  TID_MAX :: nat
  hardware_concurrency :: nat

text \<open>\<^verbatim>\<open>struct DocumentLDA\<close>: \<open>words\<close> comes from \<^verbatim>\<open>DocumentBase\<close>.\<close>

record DocumentLDA =
  words :: "VID list"
  Zs :: "TID list"
  wordWeights :: "FLOAT list"
  doc_numByTopic :: "real list"

text \<open>\<^verbatim>\<open>struct ModelStateLDA\<close>: \<open>numByTopicWord\<close> is a list of \<open>K\<close> rows of \<open>V\<close> entries,
  \<^verbatim>\<open>numByTopicWord(k, v)\<close> is \<open>numByTopicWord ! k ! v\<close>.\<close>

record ModelStateLDA =
  zLikelihood :: "FLOAT list"
  numByTopic :: "real list"
  numByTopicWord :: "real list list"

text \<open>\<^verbatim>\<open>class LDAModel\<close>, with the members of its base \<^verbatim>\<open>TopicModel\<close> that the header
  reads: \<open>docs\<close>, \<open>globalState\<close>, \<open>tState\<close>, \<open>realV\<close>, \<open>iterated\<close>, \<open>rg\<close>,
  \<open>vocabFrequencies\<close>.\<close>

record LDAModel =
  tw :: TermWeight
  vocabWeights :: "FLOAT list"
  alpha :: FLOAT
  alphas :: "FLOAT list"
  eta :: FLOAT
  K :: TID
  optimInterval :: nat
  burnIn :: nat
  docs :: "DocumentLDA list"
  globalState :: ModelStateLDA
  tState :: ModelStateLDA
  realV :: nat
  iterated :: nat
  rg :: RANDGEN
  vocabFrequencies :: "nat list"

section \<open>Construction\<close>

text \<open>The constructor (lines 521-525). \<^verbatim>\<open>K(_K)\<close> narrows a \<^verbatim>\<open>size_t\<close> to \<^verbatim>\<open>TID\<close>;
  \<open>optimInterval\<close> and \<open>burnIn\<close> have their member initialisers 10 and 0. The members
  of the base class start empty.\<close>

definition empty_state :: ModelStateLDA where
  "empty_state = \<lparr>zLikelihood = [], numByTopic = [], numByTopicWord = []\<rparr>"

definition LDAModel_ctor ::
  "externals \<Rightarrow> TermWeight \<Rightarrow> nat \<Rightarrow> FLOAT \<Rightarrow> FLOAT \<Rightarrow> RANDGEN \<Rightarrow> LDAModel" where
  "LDAModel_ctor X w k0 a e r =
     (let k = k0 mod (TID_MAX X + 1) in
      \<lparr>tw = w, vocabWeights = [], alpha = a, alphas = replicate k a, eta = e, K = k,
       optimInterval = 10, burnIn = 0, docs = [], globalState = empty_state,
       tState = empty_state, realV = 0, iterated = 0, rg = r, vocabFrequencies = []\<rparr>)"

text \<open>\<^verbatim>\<open>ILDAModel::create\<close> (lines 643-646) with the macro \<^verbatim>\<open>SWITCH_TW\<close> (lines 21-30):
  one \<^verbatim>\<open>new\<close> per term weight, \<^verbatim>\<open>nullptr\<close> (here \<open>None\<close>) for any other value of the
  enumeration. No path throws: the result is always \<open>Inr\<close>.\<close>

definition create ::
  "externals \<Rightarrow> TermWeight \<Rightarrow> nat \<Rightarrow> FLOAT \<Rightarrow> FLOAT \<Rightarrow> RANDGEN \<Rightarrow> error + LDAModel option" where
  "create X w k0 a e r =
     (case w of
        TW_one \<Rightarrow> Inr (Some (LDAModel_ctor X TW_one k0 a e r))
      | TW_idf \<Rightarrow> Inr (Some (LDAModel_ctor X TW_idf k0 a e r))
      | TW_pmi \<Rightarrow> Inr (Some (LDAModel_ctor X TW_pmi k0 a e r))
      | TW_size \<Rightarrow> Inr None)"


section \<open>Documents\<close>

text \<open>\<^verbatim>\<open>DocumentLDA::getSumWordWeight\<close> (lines 98-108): the number of words in mode
  \<open>one\<close>, \<^verbatim>\<open>std::accumulate(wordWeights.begin(), wordWeights.end(), 0.f)\<close> otherwise.\<close>

definition getSumWordWeight :: "TermWeight \<Rightarrow> DocumentLDA \<Rightarrow> real" where
  "getSumWordWeight w doc =
     (if w = TW_one then real (length (words doc)) else foldl (+) 0 (wordWeights doc))"

text \<open>\<^verbatim>\<open>DocumentLDA::update\<close> (lines 89-96). \<^verbatim>\<open>numByTopic.init(nullptr, K)\<close> is a vector
  of \<open>K\<close> zeros; the loop then runs over every position of \<open>Zs\<close>.\<close>

definition update :: "TermWeight \<Rightarrow> nat \<Rightarrow> DocumentLDA \<Rightarrow> DocumentLDA" where
  "update w k doc =
     doc\<lparr>doc_numByTopic :=
       fold (\<lambda>i nbt. nbt[Zs doc ! i :=
                 nbt ! (Zs doc ! i) + (if w \<noteq> TW_one then wordWeights doc ! i else 1)])
            [0..<length (Zs doc)] (replicate k 0)\<rparr>"

text \<open>\<^verbatim>\<open>LDAModel::updateDocs\<close> (lines 558-565), which \<^verbatim>\<open>prepare(false)\<close> calls.\<close>

definition updateDocs :: "LDAModel \<Rightarrow> LDAModel" where
  "updateDocs m = m\<lparr>docs := map (update (tw m) (K m)) (docs m)\<rparr>"

section \<open>The sampler\<close>

text \<open>\<^verbatim>\<open>addWordTo<INC>\<close> (lines 210-223). The two assertions (\<open>tid < K\<close>, \<open>vid < V\<close>)
  are the caller's obligation; the theorems below state them where they matter.\<close>

definition addWordTo ::
  "externals \<Rightarrow> LDAModel \<Rightarrow> int \<Rightarrow> ModelStateLDA \<Rightarrow> DocumentLDA \<Rightarrow> nat \<Rightarrow> VID \<Rightarrow> TID
     \<Rightarrow> ModelStateLDA \<times> DocumentLDA" where
  "addWordTo X m INC ld doc pid vid tid =
     (let DEC = (INC < 0 \<and> tw m \<noteq> TW_one);
          weight = (if tw m \<noteq> TW_one then wordWeights doc ! pid else 1);
          doc1 = doc\<lparr>doc_numByTopic := (doc_numByTopic doc)[tid :=
                    updateCnt X DEC (doc_numByTopic doc ! tid) (real_of_int INC * weight)]\<rparr>;
          ld1 = ld\<lparr>numByTopic := (numByTopic ld)[tid :=
                    updateCnt X DEC (numByTopic ld ! tid) (real_of_int INC * weight)]\<rparr>;
          ld2 = ld1\<lparr>numByTopicWord := (numByTopicWord ld1)[tid := (numByTopicWord ld1 ! tid)[vid :=
                    updateCnt X DEC (numByTopicWord ld1 ! tid ! vid) (real_of_int INC * weight)]]\<rparr>
      in (ld2, doc1))"

text \<open>Modelled from the spec: \<^verbatim>\<open>sample::prefixSum\<close> of \<^verbatim>\<open>Utils/sample.hpp\<close>, which is not
  among the sources. The spec (4.2, step 3) has the first \<open>n\<close> entries replaced in place by
  their running sums, so that entry \<open>n - 1\<close> is the total.\<close>

fun prefixSum_from :: "real \<Rightarrow> real list \<Rightarrow> real list" where
  "prefixSum_from acc [] = []"
| "prefixSum_from acc (x # xs) = (acc + x) # prefixSum_from (acc + x) xs"

definition prefixSum :: "real list \<Rightarrow> nat \<Rightarrow> real list" where
  "prefixSum xs n = prefixSum_from 0 (take n xs) @ drop n xs"

text \<open>Modelled from the spec: \<^verbatim>\<open>sample::sampleFromDiscreteAcc\<close> of \<^verbatim>\<open>Utils/sample.hpp\<close>,
  which is not among the sources. The spec (4.2, step 3): draw \<open>u\<close> uniformly in
  \<open>[0, p[K-1])\<close> and take the smallest \<open>k\<close> with \<open>p[k] \<ge> u\<close>.\<close>

fun first_ge :: "real list \<Rightarrow> real \<Rightarrow> nat" where
  "first_ge [] u = 0"
| "first_ge (p # ps) u = (if u \<le> p then 0 else Suc (first_ge ps u))"

definition sampleFromDiscreteAcc :: "externals \<Rightarrow> real list \<Rightarrow> RANDGEN \<Rightarrow> nat \<times> RANDGEN" where
  "sampleFromDiscreteAcc X p r =
     (let (c, r') = rand_unit X r; u = c * last p in (first_ge p u, r'))"

text \<open>\<^verbatim>\<open>getZLikelihoods\<close> (lines 197-208). The Eigen expression is coefficient-wise over
  vectors of \<open>K\<close> rows; the result is stored in \<open>ld.zLikelihood\<close>, prefix-summed there,
  and a pointer to it is returned.\<close>

definition getZLikelihoods ::
  "LDAModel \<Rightarrow> ModelStateLDA \<Rightarrow> DocumentLDA \<Rightarrow> VID \<Rightarrow> ModelStateLDA \<times> FLOAT list" where
  "getZLikelihoods m ld doc vid =
     (let V = realV m;
          zl = map (\<lambda>k. (doc_numByTopic doc ! k + alphas m ! k)
                        * (numByTopicWord ld ! k ! vid + eta m)
                        / (numByTopic ld ! k + real V * eta m)) [0..<K m];
          zl' = prefixSum zl (K m)
      in (ld\<lparr>zLikelihood := zl'\<rparr>, zl'))"

text \<open>\<^verbatim>\<open>sampleDocument\<close> (lines 225-235): \<open>sampleToken\<close> is the body of its loop.\<close>

definition sampleToken ::
  "externals \<Rightarrow> LDAModel \<Rightarrow> nat \<Rightarrow> DocumentLDA \<times> ModelStateLDA \<times> RANDGEN
     \<Rightarrow> DocumentLDA \<times> ModelStateLDA \<times> RANDGEN" where
  "sampleToken X m w = (\<lambda>(doc, ld, r).
     if realV m \<le> words doc ! w then (doc, ld, r)
     else
       (let (ld1, doc1) = addWordTo X m (- 1) ld doc w (words doc ! w) (Zs doc ! w);
            (ld2, p) = getZLikelihoods m ld1 doc1 (words doc1 ! w);
            (z, r') = sampleFromDiscreteAcc X (take (K m) p) r;
            doc2 = doc1\<lparr>Zs := (Zs doc1)[w := z]\<rparr>;
            (ld3, doc3) = addWordTo X m 1 ld2 doc2 w (words doc2 ! w) (Zs doc2 ! w)
        in (doc3, ld3, r')))"

definition sampleDocument ::
  "externals \<Rightarrow> LDAModel \<Rightarrow> DocumentLDA \<Rightarrow> ModelStateLDA \<Rightarrow> RANDGEN
     \<Rightarrow> DocumentLDA \<times> ModelStateLDA \<times> RANDGEN" where
  "sampleDocument X m doc ld r = fold (sampleToken X m) [0..<length (words doc)] (doc, ld, r)"

section \<open>Initialisation of a document\<close>

text \<open>\<^verbatim>\<open>prepareDoc\<close> (lines 360-365). \<^verbatim>\<open>tvector<TID>(wordSize)\<close> is a vector of
  \<open>wordSize\<close> zeros; \<^verbatim>\<open>resize(wordSize, 1)\<close> keeps the entries that exist and fills with 1.\<close>

definition prepareDoc :: "LDAModel \<Rightarrow> DocumentLDA \<Rightarrow> nat \<Rightarrow> DocumentLDA" where
  "prepareDoc m doc wordSize =
     doc\<lparr>doc_numByTopic := replicate (K m) 0,
         Zs := replicate wordSize 0,
         wordWeights := (if tw m \<noteq> TW_one
                         then take wordSize (wordWeights doc)
                              @ replicate (wordSize - length (wordWeights doc)) 1
                         else wordWeights doc)\<rparr>"

text \<open>\<^verbatim>\<open>makeGeneratorForInit\<close> (lines 384-387): the bounds of the uniform distribution;
  \<^verbatim>\<open>(TID)(K - 1)\<close> wraps to the largest \<^verbatim>\<open>TID\<close> when \<open>K = 0\<close>.\<close>

definition makeGeneratorForInit :: "externals \<Rightarrow> LDAModel \<Rightarrow> TID \<times> TID" where
  "makeGeneratorForInit X m = (0, if K m = 0 then TID_MAX X else K m - 1)"

text \<open>\<^verbatim>\<open>updateStateWithDoc\<close> (lines 389-395).\<close>

definition updateStateWithDoc ::
  "externals \<Rightarrow> LDAModel \<Rightarrow> TID \<times> TID \<Rightarrow> ModelStateLDA \<Rightarrow> RANDGEN \<Rightarrow> DocumentLDA \<Rightarrow> nat
     \<Rightarrow> ModelStateLDA \<times> RANDGEN \<times> DocumentLDA" where
  "updateStateWithDoc X m g ld r doc i =
     (let w = words doc ! i;
          (z, r') = rand_tid X (fst g) (snd g) r;
          doc1 = doc\<lparr>Zs := (Zs doc)[i := z]\<rparr>;
          (ld', doc2) = addWordTo X m 1 ld doc1 i w z
      in (ld', r', doc2))"

text \<open>\<^verbatim>\<open>initializeDocState\<close> (lines 397-421): \<open>termFreq\<close> is the vector \<open>tf\<close> and
  \<open>initToken\<close> the body of the second loop.\<close>

definition termFreq :: "LDAModel \<Rightarrow> DocumentLDA \<Rightarrow> nat list" where
  "termFreq m doc =
     (if tw m = TW_pmi
      then fold (\<lambda>w tf. if w < realV m then tf[w := tf ! w + 1] else tf) (words doc)
                (replicate (realV m) 0)
      else replicate (realV m) 0)"

definition initToken ::
  "externals \<Rightarrow> LDAModel \<Rightarrow> TID \<times> TID \<Rightarrow> nat list \<Rightarrow> nat
     \<Rightarrow> DocumentLDA \<times> ModelStateLDA \<times> RANDGEN \<Rightarrow> DocumentLDA \<times> ModelStateLDA \<times> RANDGEN" where
  "initToken X m g tf i = (\<lambda>(doc, ld, r).
     if realV m \<le> words doc ! i then (doc, ld, r)
     else
       (let doc1 =
              (if tw m = TW_idf
               then doc\<lparr>wordWeights := (wordWeights doc)[i := vocabWeights m ! (words doc ! i)]\<rparr>
               else if tw m = TW_pmi
               then doc\<lparr>wordWeights := (wordWeights doc)[i :=
                      max (ln (real (tf ! (words doc ! i)) / vocabWeights m ! (words doc ! i)
                               / real (length (words doc)))) 0]\<rparr>
               else doc);
            (ld', r', doc2) = updateStateWithDoc X m g ld r doc1 i
        in (doc2, ld', r')))"

definition initializeDocState ::
  "externals \<Rightarrow> LDAModel \<Rightarrow> DocumentLDA \<Rightarrow> TID \<times> TID \<Rightarrow> ModelStateLDA \<Rightarrow> RANDGEN
     \<Rightarrow> DocumentLDA \<times> ModelStateLDA \<times> RANDGEN" where
  "initializeDocState X m doc g ld r =
     (let tf = termFreq m doc;
          doc0 = prepareDoc m doc (length (words doc))
      in fold (initToken X m g tf) [0..<length (words doc0)] (doc0, ld, r))"

section \<open>Readouts\<close>

text \<open>\<^verbatim>\<open>_getTopicsCount\<close> (lines 423-434), the body of \<^verbatim>\<open>getCountByTopic\<close>.\<close>

definition getTopicsCount :: "LDAModel \<Rightarrow> nat list" where
  "getTopicsCount m =
     fold (\<lambda>doc cnt0.
             fold (\<lambda>i cnt. if words doc ! i < realV m
                            then cnt[Zs doc ! i := cnt ! (Zs doc ! i) + 1] else cnt)
                  [0..<length (Zs doc)] cnt0)
          (docs m) (replicate (K m) 0)"

definition getCountByTopic :: "LDAModel \<Rightarrow> nat list" where
  "getCountByTopic m = getTopicsCount m"

text \<open>\<^verbatim>\<open>getTopicsByDoc\<close> (lines 630-639). The lambda takes its argument as \<^verbatim>\<open>size_t\<close>:
  an \<^verbatim>\<open>int32_t\<close> count is converted modulo \<open>2^64\<close>, a \<^verbatim>\<open>float\<close> count is truncated
  (the conversion of a negative \<^verbatim>\<open>float\<close> is undefined in C++; the model takes the floor).\<close>

definition to_size_t :: "TermWeight \<Rightarrow> real \<Rightarrow> real" where
  "to_size_t w x =
     (if w = TW_one then real_of_int (\<lfloor>x\<rfloor> mod 2 ^ 64) else real_of_int \<lfloor>x\<rfloor>)"

definition getTopicsByDoc :: "LDAModel \<Rightarrow> DocumentLDA \<Rightarrow> FLOAT list" where
  "getTopicsByDoc m doc =
     (let sum = getSumWordWeight (tw m) doc + real (K m) * alpha m
      in map (\<lambda>n. (to_size_t (tw m) n + alpha m) / sum) (take (K m) (doc_numByTopic doc)))"


section \<open>Hyperparameter optimisation\<close>

text \<open>\<^verbatim>\<open>calcDigammaSum\<close> (lines 171-181).\<close>

definition calcDigammaSum :: "externals \<Rightarrow> (nat \<Rightarrow> real) \<Rightarrow> nat \<Rightarrow> FLOAT \<Rightarrow> FLOAT" where
  "calcDigammaSum X list len a =
     (let dAlpha = digammaT X a
      in fold (\<lambda>i ret. ret + (digammaT X (list i + a) - dAlpha)) [0..<len] 0)"

text \<open>\<^verbatim>\<open>optimizeParameters\<close> (lines 183-195): \<open>optimizeTopic\<close> is the body of the inner
  loop and \<open>optimizeIter\<close> the body of the outer one. A \<^verbatim>\<open>float\<close> division by zero gives
  an infinity or a NaN in C++, which no real number stands for: the model stops there
  with \<open>None\<close> instead of going on with the \<open>0\<close> that HOL gives \<open>x / 0\<close>.\<close>

definition optimizeTopic ::
  "externals \<Rightarrow> LDAModel \<Rightarrow> FLOAT \<Rightarrow> nat \<Rightarrow> FLOAT list \<Rightarrow> FLOAT list option" where
  "optimizeTopic X m denom k al =
     (let nom = calcDigammaSum X (\<lambda>i. doc_numByTopic (docs m ! i) ! k) (length (docs m)) (al ! k)
      in if denom = 0 then None
         else Some (al[k := max (nom / denom * al ! k) (1 / 100000)]))"

definition optimizeIter :: "externals \<Rightarrow> LDAModel \<Rightarrow> FLOAT list \<Rightarrow> FLOAT list option" where
  "optimizeIter X m al =
     (let denom = calcDigammaSum X (\<lambda>i. getSumWordWeight (tw m) (docs m ! i))
                    (length (docs m)) (sum_list al)
      in fold (\<lambda>k r. Option.bind r (optimizeTopic X m denom k)) [0..<K m] (Some al))"

definition optimizeParameters :: "externals \<Rightarrow> LDAModel \<Rightarrow> LDAModel option" where
  "optimizeParameters X m =
     map_option (\<lambda>al. m\<lparr>alphas := al\<rparr>)
       (fold (\<lambda>i r. Option.bind r (optimizeIter X m)) [0..<10] (Some (alphas m)))"

section \<open>A training round\<close>

text \<open>Coefficient-wise sums and differences of Eigen vectors and matrices.\<close>

definition vadd :: "real list \<Rightarrow> real list \<Rightarrow> real list" where
  "vadd xs ys = map2 (+) xs ys"

definition vsub :: "real list \<Rightarrow> real list \<Rightarrow> real list" where
  "vsub xs ys = map2 (-) xs ys"

definition madd :: "real list list \<Rightarrow> real list list \<Rightarrow> real list list" where
  "madd xs ys = map2 vadd xs ys"

definition msub :: "real list list \<Rightarrow> real list list \<Rightarrow> real list list" where
  "msub xs ys = map2 vsub xs ys"

text \<open>\<^verbatim>\<open>mergeState\<close> (lines 274-301). \<open>W\<close> is \<^verbatim>\<open>pool.getNumWorkers()\<close>. The parameter
  \<^verbatim>\<open>tState\<close> is overwritten before it is read, so it is a result only. The result is
  the new \<^verbatim>\<open>globalState\<close>, \<^verbatim>\<open>tState\<close> and \<^verbatim>\<open>localData\<close>. The last loop enqueues one
  task per worker, task \<open>i\<close> writing \<open>localData[i]\<close> only, and waits for all of them.\<close>

definition mergeStep :: "ModelStateLDA \<Rightarrow> ModelStateLDA list \<Rightarrow> nat \<Rightarrow> ModelStateLDA \<Rightarrow> ModelStateLDA" where
  "mergeStep tSt localData i g =
     g\<lparr>numByTopic := vadd (numByTopic g) (vsub (numByTopic (localData ! i)) (numByTopic tSt)),
       numByTopicWord := madd (numByTopicWord g)
                              (msub (numByTopicWord (localData ! i)) (numByTopicWord tSt))\<rparr>"

definition cwiseMax0 :: "ModelStateLDA \<Rightarrow> ModelStateLDA" where
  "cwiseMax0 g =
     g\<lparr>numByTopic := map (\<lambda>x. max x 0) (numByTopic g),
       numByTopicWord := map (map (\<lambda>x. max x 0)) (numByTopicWord g)\<rparr>"

definition mergeState ::
  "LDAModel \<Rightarrow> nat \<Rightarrow> ModelStateLDA \<Rightarrow> ModelStateLDA list
     \<Rightarrow> ModelStateLDA \<times> ModelStateLDA \<times> ModelStateLDA list" where
  "mergeState m W gState localData =
     (let tSt = gState;
          g0 = localData ! 0;
          g1 = fold (mergeStep tSt localData) [1..<W] g0;
          g2 = (if tw m \<noteq> TW_one then cwiseMax0 g1 else g1);
          localData' = fold (\<lambda>i l. l[i := g2]) [0..<W] localData
      in (g2, tSt, localData'))"

text \<open>The sampling stage of \<^verbatim>\<open>trainOne\<close> (lines 242-255). Chunk \<open>ch\<close> is one task of the
  pool; the pool hands it to some worker \<open>threadId\<close>, which the model takes from a
  schedule \<open>sched ch\<close>. A task reads and writes only its documents (those with index
  \<open>ch\<close> modulo \<open>chStride\<close>), \<open>localData[threadId]\<close> and \<open>rgs[threadId]\<close>, and a worker
  runs its tasks one after the other, so that running the tasks in the order of \<open>ch\<close>
  gives the result of the parallel run under that schedule.\<close>

definition sampleChunk ::
  "externals \<Rightarrow> LDAModel \<Rightarrow> nat \<Rightarrow> nat \<Rightarrow> nat
     \<Rightarrow> DocumentLDA list \<times> ModelStateLDA list \<times> RANDGEN list
     \<Rightarrow> DocumentLDA list \<times> ModelStateLDA list \<times> RANDGEN list" where
  "sampleChunk X m chStride ch threadId = (\<lambda>(ds, localData, rgs).
     let (seed, r1) = rand_raw X (rgs ! threadId);
         rgs1 = rgs[threadId := r1];
         order = forRandom X ((length ds - 1 - ch) div chStride + 1) seed
     in fold (\<lambda>id (ds, localData, rgs).
                let (d', ld', r') = sampleDocument X m (ds ! (id * chStride + ch))
                                      (localData ! threadId) (rgs ! threadId)
                in (ds[id * chStride + ch := d'], localData[threadId := ld'],
                    rgs[threadId := r']))
             order (ds, localData, rgs1))"

definition sampleRound ::
  "externals \<Rightarrow> LDAModel \<Rightarrow> nat \<Rightarrow> (nat \<Rightarrow> nat)
     \<Rightarrow> DocumentLDA list \<times> ModelStateLDA list \<times> RANDGEN list
     \<Rightarrow> DocumentLDA list \<times> ModelStateLDA list \<times> RANDGEN list" where
  "sampleRound X m W sched = (\<lambda>(ds, localData, rgs).
     let chStride = min (W * 8) (length ds)
     in fold (\<lambda>ch. sampleChunk X m chStride ch (sched ch)) [0..<chStride] (ds, localData, rgs))"

text \<open>\<^verbatim>\<open>trainOne\<close> (lines 237-268): the sampling stage, \<^verbatim>\<open>updateGlobalInfo\<close> (which
  does nothing, lines 270-272), \<^verbatim>\<open>mergeState\<close> on the members \<open>globalState\<close> and
  \<open>tState\<close>, then the optimizer under its guard. Nothing in the header throws a
  \<^verbatim>\<open>TrainingError\<close>, so the handler of line 263 is not modelled. The result is \<open>None\<close>
  only when the optimizer divides by zero.\<close>

definition sampleAndMerge ::
  "externals \<Rightarrow> (nat \<Rightarrow> nat) \<Rightarrow> nat \<Rightarrow> LDAModel \<Rightarrow> ModelStateLDA list \<Rightarrow> RANDGEN list
     \<Rightarrow> LDAModel \<times> ModelStateLDA list \<times> RANDGEN list" where
  "sampleAndMerge X sched W m localData rgs =
     (let (ds, localData1, rgs1) = sampleRound X m W sched (docs m, localData, rgs);
          m1 = m\<lparr>docs := ds\<rparr>;
          (g, t, localData2) = mergeState m1 W (globalState m1) localData1
      in (m1\<lparr>globalState := g, tState := t\<rparr>, localData2, rgs1))"

definition trainOne ::
  "externals \<Rightarrow> (nat \<Rightarrow> nat) \<Rightarrow> nat \<Rightarrow> LDAModel \<Rightarrow> ModelStateLDA list \<Rightarrow> RANDGEN list
     \<Rightarrow> (LDAModel \<times> ModelStateLDA list \<times> RANDGEN list) option" where
  "trainOne X sched W m localData rgs =
     (let (m2, localData2, rgs1) = sampleAndMerge X sched W m localData rgs
      in if burnIn m2 \<le> iterated m2 \<and> optimInterval m2 \<noteq> 0
            \<and> (iterated m2 + 1) mod optimInterval m2 = 0
         then map_option (\<lambda>m3. (m3, localData2, rgs1)) (optimizeParameters X m2)
         else Some (m2, localData2, rgs1))"

section \<open>Rounds of training\<close>

text \<open>Modelled from the spec: \<^verbatim>\<open>TopicModel::train\<close> of \<^verbatim>\<open>TopicModel.hpp\<close>, which is not
  among the sources. Section 6: \<open>train(rounds, workers)\<close> runs \<open>rounds\<close> training rounds;
  the member \<open>iterated\<close> counts the completed rounds. \<open>scheds r\<close> is the schedule of the
  pool in round \<open>r\<close>.\<close>

fun train ::
  "externals \<Rightarrow> (nat \<Rightarrow> nat \<Rightarrow> nat) \<Rightarrow> nat \<Rightarrow> nat \<Rightarrow> LDAModel \<Rightarrow> ModelStateLDA list \<Rightarrow> RANDGEN list
     \<Rightarrow> (LDAModel \<times> ModelStateLDA list \<times> RANDGEN list) option" where
  "train X scheds W 0 m localData rgs = Some (m, localData, rgs)"
| "train X scheds W (Suc n) m localData rgs =
     (case trainOne X (scheds (iterated m)) W m localData rgs of
        None \<Rightarrow> None
      | Some (m', localData', rgs') \<Rightarrow>
          train X scheds W n (m'\<lparr>iterated := iterated m' + 1\<rparr>) localData' rgs')"

section \<open>Log-likelihood\<close>

text \<open>\<^verbatim>\<open>getLLDocs\<close> (lines 303-318), \<^verbatim>\<open>getLLRest\<close> (lines 320-337) and \<^verbatim>\<open>getLL\<close>
  (lines 339-343).\<close>

definition getLLDocs :: "externals \<Rightarrow> LDAModel \<Rightarrow> DocumentLDA list \<Rightarrow> real" where
  "getLLDocs X m ds =
     fold (\<lambda>doc ll.
             let ll1 = ll - (lgammaT X (getSumWordWeight (tw m) doc + sum_list (alphas m))
                             - lgammaT X (sum_list (alphas m)))
             in fold (\<lambda>k ll2. ll2 + (lgammaT X (doc_numByTopic doc ! k + alphas m ! k)
                                      - lgammaT X (alphas m ! k)))
                     [0..<K m] ll1)
          ds 0"

definition getLLRest :: "externals \<Rightarrow> LDAModel \<Rightarrow> ModelStateLDA \<Rightarrow> real" where
  "getLLRest X m ld =
     (let V = realV m;
          lgammaEta = lgammaT X (eta m);
          ll0 = 0 + lgammaT X (real V * eta m) * real (K m)
      in fold (\<lambda>k ll.
                 let ll1 = ll - lgammaT X (numByTopic ld ! k + real V * eta m)
                 in fold (\<lambda>v ll2. if numByTopicWord ld ! k ! v = 0 then ll2
                                    else ll2 + (lgammaT X (numByTopicWord ld ! k ! v + eta m)
                                                - lgammaEta))
                         [0..<V] ll1)
              [0..<K m] ll0)"

definition getLL :: "externals \<Rightarrow> LDAModel \<Rightarrow> real" where
  "getLL X m = getLLDocs X m (docs m) + getLLRest X m (globalState m)"


section \<open>Inference on held-out documents\<close>

text \<open>
  \<^verbatim>\<open>_infer\<close> (lines 450-516) passes model states by reference to \<^verbatim>\<open>initializeDocState\<close>,
  \<^verbatim>\<open>sampleDocument\<close> and \<^verbatim>\<open>mergeState\<close>. To see which object each call writes, the
  states live in a store: \<open>GlobalState\<close> is the member \<^verbatim>\<open>this->globalState\<close>, \<open>TmpState\<close>
  and \<open>TState\<close> the locals \<^verbatim>\<open>tmpState\<close> and \<^verbatim>\<open>tState\<close> of the joint branch,
  \<open>LocalData i\<close> the element \<open>i\<close> of its vector \<^verbatim>\<open>localData\<close>, and \<open>TaskTmpState j\<close>
  the local \<^verbatim>\<open>tmpState\<close> of the task of document \<open>j\<close> in the other branch. A copy
  (\<^verbatim>\<open>auto tmpState = this->globalState\<close>) writes the value read at one reference to
  another reference.
\<close>

datatype ref = GlobalState | TmpState | TState | LocalData nat | TaskTmpState nat

type_synonym store = "ref \<Rightarrow> ModelStateLDA"

definition load_locals :: "nat \<Rightarrow> store \<Rightarrow> ModelStateLDA list" where
  "load_locals W \<sigma> = map (\<lambda>i. \<sigma> (LocalData i)) [0..<W]"

definition store_locals :: "ModelStateLDA list \<Rightarrow> store \<Rightarrow> store" where
  "store_locals ls \<sigma> = fold (\<lambda>i \<sigma>'. \<sigma>'(LocalData i := ls ! i)) [0..<length ls] \<sigma>"

text \<open>The joint branch (\<^verbatim>\<open>_Together\<close>, lines 456-491): \<open>infer_init\<close> is the loop of lines
  461-464, \<open>infer_round\<close> one iteration of the loop of lines 470-487.\<close>

definition infer_init ::
  "externals \<Rightarrow> LDAModel \<Rightarrow> TID \<times> TID \<Rightarrow> nat
     \<Rightarrow> DocumentLDA list \<times> store \<times> RANDGEN \<Rightarrow> DocumentLDA list \<times> store \<times> RANDGEN" where
  "infer_init X m g j = (\<lambda>(ds, \<sigma>, r).
     let (d', ld', r') = initializeDocState X m (ds ! j) g (\<sigma> TmpState) r
     in (ds[j := d'], \<sigma>(TmpState := ld'), r'))"

definition infer_round ::
  "externals \<Rightarrow> LDAModel \<Rightarrow> nat \<Rightarrow> (nat \<Rightarrow> nat \<Rightarrow> nat) \<Rightarrow> nat
     \<Rightarrow> DocumentLDA list \<times> store \<times> RANDGEN list \<Rightarrow> DocumentLDA list \<times> store \<times> RANDGEN list" where
  "infer_round X m W sched i = (\<lambda>(ds, \<sigma>, rgs).
     let (ds', ls, rgs') = sampleRound X m W (sched i) (ds, load_locals W \<sigma>, rgs);
         \<sigma>1 = store_locals ls \<sigma>;
         (g, t, ls') = mergeState m W (\<sigma>1 TmpState) (load_locals W \<sigma>1);
         \<sigma>2 = store_locals ls' (\<sigma>1(TmpState := g, TState := t))
     in (ds', \<sigma>2, rgs'))"

definition infer_together ::
  "externals \<Rightarrow> LDAModel \<Rightarrow> (nat \<Rightarrow> nat \<Rightarrow> nat) \<Rightarrow> DocumentLDA list \<Rightarrow> nat \<Rightarrow> nat \<Rightarrow> store
     \<Rightarrow> store \<times> DocumentLDA list \<times> real list" where
  "infer_together X m sched ds0 maxIter W \<sigma>0 =
     (let generator = makeGeneratorForInit X m;
          rgc = default_rg X;
          \<sigma>1 = \<sigma>0(TmpState := \<sigma>0 GlobalState, TState := \<sigma>0 GlobalState);
          (ds1, \<sigma>2, rgc1) = fold (infer_init X m generator) [0..<length ds0] (ds0, \<sigma>1, rgc);
          \<sigma>3 = store_locals (replicate W (\<sigma>2 TmpState)) \<sigma>2;
          (rgs, rgc2) = fold (\<lambda>i (rs, r). let (s, r') = rand_raw X r in (rs @ [seed_rg X s], r'))
                             [0..<W] ([], rgc1);
          (ds2, \<sigma>4, rgs') = fold (infer_round X m W sched) [0..<maxIter] (ds1, \<sigma>3, rgs);
          ll = getLLRest X m (\<sigma>4 TmpState) - getLLRest X m (\<sigma>4 GlobalState);
          ll' = ll + getLLDocs X m ds2
      in (\<sigma>4, ds2, [ll']))"

text \<open>The other branch (lines 492-515): one task per document; \<open>infer_task\<close> is the
  task of document \<open>j\<close>. The tasks share nothing but the model they read, and their
  results are collected in the order of the documents.\<close>

definition infer_task ::
  "externals \<Rightarrow> LDAModel \<Rightarrow> TID \<times> TID \<Rightarrow> real \<Rightarrow> nat \<Rightarrow> nat
     \<Rightarrow> store \<times> DocumentLDA list \<times> real list \<Rightarrow> store \<times> DocumentLDA list \<times> real list" where
  "infer_task X m generator gllRest maxIter j = (\<lambda>(\<sigma>, ds, ret).
     let rgc = default_rg X;
         \<sigma>1 = \<sigma>(TaskTmpState j := \<sigma> GlobalState);
         (d1, ld1, r1) = initializeDocState X m (ds ! j) generator (\<sigma>1 (TaskTmpState j)) rgc;
         \<sigma>2 = \<sigma>1(TaskTmpState j := ld1);
         (d2, \<sigma>3, r2) =
            fold (\<lambda>i (d, \<sigma>', r). let (d', ld', r') = sampleDocument X m d (\<sigma>' (TaskTmpState j)) r
                                in (d', \<sigma>'(TaskTmpState j := ld'), r'))
                 [0..<maxIter] (d1, \<sigma>2, r1);
         ll = getLLRest X m (\<sigma>3 (TaskTmpState j)) - gllRest;
         ll' = ll + getLLDocs X m [d2]
     in (\<sigma>3, ds[j := d2], ret @ [ll']))"

definition infer_separate ::
  "externals \<Rightarrow> LDAModel \<Rightarrow> DocumentLDA list \<Rightarrow> nat \<Rightarrow> store
     \<Rightarrow> store \<times> DocumentLDA list \<times> real list" where
  "infer_separate X m ds0 maxIter \<sigma>0 =
     (let generator = makeGeneratorForInit X m;
          gllRest = getLLRest X m (\<sigma>0 GlobalState)
      in fold (infer_task X m generator gllRest maxIter) [0..<length ds0] (\<sigma>0, ds0, []))"

text \<open>\<^verbatim>\<open>_infer<_Together>\<close>: the store it starts from holds the member
  \<open>globalState\<close> of the model; \<open>tolerance\<close> is not used by the code. The result is the
  store, the held-out documents and the returned vector as they are at the return.\<close>

definition infer ::
  "externals \<Rightarrow> LDAModel \<Rightarrow> bool \<Rightarrow> (nat \<Rightarrow> nat \<Rightarrow> nat) \<Rightarrow> DocumentLDA list \<Rightarrow> nat \<Rightarrow> FLOAT \<Rightarrow> nat
     \<Rightarrow> store \<times> DocumentLDA list \<times> real list" where
  "infer X m together sched ds maxIter tolerance numWorkers =
     (let W = (if numWorkers = 0 then hardware_concurrency X else numWorkers);
          \<sigma>0 = (\<lambda>_. empty_state)(GlobalState := globalState m)
      in if together then infer_together X m sched ds maxIter W \<sigma>0
         else infer_separate X m ds maxIter \<sigma>0)"

section \<open>The formulas of the specification\<close>

text \<open>The definitions of this section follow the words of the specification, not the code:
  the theorems below compare the code with them.\<close>

subsection \<open>The update of the optimizer\<close>

text \<open>Section 4.4 of the specification: in one iteration \<open>denom\<close> is computed once,
  \<open>nom\<^sub>k\<close> for each \<open>k\<close>, and \<open>alphas[k]\<close> becomes \<open>max(1e-5, alphas[k] * nom\<^sub>k / denom)\<close>.\<close>

definition spec_denom :: "externals \<Rightarrow> LDAModel \<Rightarrow> FLOAT list \<Rightarrow> real" where
  "spec_denom X m al =
     (\<Sum>d\<leftarrow>docs m. digammaT X (getSumWordWeight (tw m) d + sum_list al) - digammaT X (sum_list al))"

definition spec_nom :: "externals \<Rightarrow> LDAModel \<Rightarrow> FLOAT list \<Rightarrow> nat \<Rightarrow> real" where
  "spec_nom X m al k =
     (\<Sum>d\<leftarrow>docs m. digammaT X (doc_numByTopic d ! k + al ! k) - digammaT X (al ! k))"

definition spec_alpha_step :: "externals \<Rightarrow> LDAModel \<Rightarrow> FLOAT list \<Rightarrow> FLOAT list" where
  "spec_alpha_step X m al =
     map (\<lambda>k. max (1 / 100000) (al ! k * spec_nom X m al k / spec_denom X m al)) [0..<length al]"

subsection \<open>The topics of a document\<close>

text \<open>Section 4.7 of the specification: the topic distribution of a document.\<close>

definition spec_topics_by_doc :: "LDAModel \<Rightarrow> DocumentLDA \<Rightarrow> nat \<Rightarrow> real" where
  "spec_topics_by_doc m doc k =
     (doc_numByTopic doc ! k + alphas m ! k) / (getSumWordWeight (tw m) doc + sum_list (alphas m))"

subsection \<open>The merge\<close>

text \<open>Section 4.3 of the specification: the states have \<open>k\<close> topics and \<open>v\<close> words;
  the clamp to \<open>\<ge> 0\<close> applies in the weighted modes only.\<close>

definition state_dims :: "nat \<Rightarrow> nat \<Rightarrow> ModelStateLDA \<Rightarrow> bool" where
  "state_dims k v s \<longleftrightarrow>
     length (numByTopic s) = k \<and> length (numByTopicWord s) = k
     \<and> list_all (\<lambda>row. length row = v) (numByTopicWord s)"

definition spec_clamp :: "TermWeight \<Rightarrow> real \<Rightarrow> real" where
  "spec_clamp w x = (if w = TW_one then x else max 0 x)"

definition spec_merged :: "TermWeight \<Rightarrow> nat \<Rightarrow> real \<Rightarrow> (nat \<Rightarrow> real) \<Rightarrow> real" where
  "spec_merged w W g l = spec_clamp w (l 0 + (\<Sum>i = 1..<W. l i - g))"

subsection \<open>The round in which the optimizer is due\<close>

text \<open>Section 4.4 of the specification: when the optimizer is due in the round that
  follows \<open>iterated m\<close> completed rounds.\<close>

definition spec_optim_due :: "LDAModel \<Rightarrow> bool" where
  "spec_optim_due m \<longleftrightarrow>
     burnIn m \<le> iterated m \<and> 0 < optimInterval m \<and> optimInterval m dvd iterated m + 1"

subsection \<open>The proposal of the sampler\<close>

text \<open>Section 4.2, step 2, of the specification: the unnormalised weight of topic \<open>k\<close> for a
  token of the word \<open>v\<close>, from the counts of the document and of the state.\<close>

definition spec_proposal :: "LDAModel \<Rightarrow> DocumentLDA \<Rightarrow> ModelStateLDA \<Rightarrow> VID \<Rightarrow> nat \<Rightarrow> real" where
  "spec_proposal m doc S v k =
     (doc_numByTopic doc ! k + alphas m ! k) * (numByTopicWord S ! k ! v + eta m)
       / (numByTopic S ! k + real (realV m) * eta m)"

subsection \<open>The log-likelihood\<close>

text \<open>Section 4.5 of the specification: the document part and the topic-word part.\<close>

definition spec_ll_docs :: "externals \<Rightarrow> LDAModel \<Rightarrow> DocumentLDA list \<Rightarrow> real" where
  "spec_ll_docs X m ds =
     (\<Sum>d\<leftarrow>ds. lgammaT X (sum_list (alphas m))
               - lgammaT X (getSumWordWeight (tw m) d + sum_list (alphas m))
               + (\<Sum>k<K m. lgammaT X (doc_numByTopic d ! k + alphas m ! k)
                           - lgammaT X (alphas m ! k)))"

definition spec_ll_topic_word :: "externals \<Rightarrow> LDAModel \<Rightarrow> ModelStateLDA \<Rightarrow> real" where
  "spec_ll_topic_word X m S =
     real (K m) * lgammaT X (real (realV m) * eta m)
     + (\<Sum>k<K m. - lgammaT X (numByTopic S ! k + real (realV m) * eta m)
                 + (\<Sum>v | v < realV m \<and> 0 < numByTopicWord S ! k ! v.
                      lgammaT X (numByTopicWord S ! k ! v + eta m) - lgammaT X (eta m)))"

subsection \<open>The total weight of a document\<close>


section \<open>Concrete inputs\<close>

text \<open>An instance of the parameters: the identity for \<open>digammaT\<close>, the square for \<open>lgammaT\<close>, plain
  addition for \<open>updateCnt\<close>, a counter for the generator, whose draws are the upper bound
  for a topic and \<open>1 / 2\<close> for a number of \<open>[0, 1)\<close>.\<close>

definition ext0 :: externals where
  "ext0 = \<lparr>digammaT = (\<lambda>x. x), lgammaT = (\<lambda>x. x * x), updateCnt = (\<lambda>dec v inc. v + inc),
           rand_raw = (\<lambda>r. (r, Suc r)), rand_tid = (\<lambda>a b r. (b, Suc r)),
           rand_unit = (\<lambda>r. (1 / 2, Suc r)), seed_rg = (\<lambda>s. s), default_rg = 0,
           forRandom = (\<lambda>n seed. [0..<n]), TID_MAX = 65535, hardware_concurrency = 4\<rparr>"

text \<open>A model in mode \<open>one\<close> with two topics and one document of two tokens of the word 0,
  both assigned to topic 0, after nine rounds.\<close>

definition d1 :: DocumentLDA where
  "d1 = \<lparr>words = [0, 0], Zs = [0, 0], wordWeights = [], doc_numByTopic = [2, 0]\<rparr>"

definition m1 :: LDAModel where
  "m1 = \<lparr>tw = TW_one, vocabWeights = [], alpha = 1 / 10, alphas = [1 / 10, 1 / 10],
         eta = 1 / 100, K = 2, optimInterval = 10, burnIn = 0, docs = [d1],
         globalState = \<lparr>zLikelihood = [0, 0], numByTopic = [2, 0], numByTopicWord = [[2], [0]]\<rparr>,
         tState = empty_state, realV = 1, iterated = 9, rg = 7, vocabFrequencies = [2]\<rparr>"

text \<open>A model in mode \<open>idf\<close> with one topic and one word, a global state and two local
  states of it.\<close>

definition m_idf :: LDAModel where
  "m_idf = \<lparr>tw = TW_idf, vocabWeights = [1 / 2], alpha = 1 / 10, alphas = [1 / 10],
         eta = 1 / 100, K = 1, optimInterval = 10, burnIn = 0, docs = [],
         globalState = \<lparr>zLikelihood = [0], numByTopic = [3], numByTopicWord = [[3]]\<rparr>,
         tState = empty_state, realV = 1, iterated = 0, rg = 7, vocabFrequencies = [6]\<rparr>"

definition st :: "real \<Rightarrow> ModelStateLDA" where
  "st x = \<lparr>zLikelihood = [0], numByTopic = [x], numByTopicWord = [[x]]\<rparr>"

text \<open>The state of \<open>m1\<close> after the sampling and the merge of one round with one worker,
  and \<open>m1\<close> with the optimizer switched off.\<close>

definition s1 :: ModelStateLDA where
  "s1 = \<lparr>zLikelihood = [11 / 10, 6 / 5], numByTopic = [2, 0], numByTopicWord = [[2], [0]]\<rparr>"

definition m1_merged :: LDAModel where
  "m1_merged = m1\<lparr>globalState := s1, tState := globalState m1\<rparr>"

definition m1_off :: LDAModel where
  "m1_off = m1\<lparr>optimInterval := 0\<rparr>"

text \<open>A fresh document with a word of the vocabulary at position 0 and an out-of-vocabulary
  word at position 1 (the vocabulary of \<open>m1\<close> has the single word 0), and the same document
  as \<^verbatim>\<open>initializeDocState\<close> leaves it when the draw for position 0 is topic 1.\<close>

definition d_fresh :: DocumentLDA where
  "d_fresh = \<lparr>words = [0, 7], Zs = [], wordWeights = [], doc_numByTopic = []\<rparr>"

definition d_oov :: DocumentLDA where
  "d_oov = \<lparr>words = [0, 7], Zs = [1, 0], wordWeights = [], doc_numByTopic = [0, 1]\<rparr>"


section \<open>Properties\<close>

subsection \<open>Construction\<close>

text \<open>
  C4 (as amended). \<^verbatim>\<open>create\<close> never fails with a \<open>ConfigError\<close>: for each of the term
  weights \<open>one\<close>, \<open>idf\<close>, \<open>pmi\<close> it returns a model, whatever \<open>K\<close>, \<open>alpha\<close> and \<open>eta\<close>
  are (\<open>K\<close> narrowed to the type \<^verbatim>\<open>TID\<close>, \<open>alphas\<close> made of \<open>K\<close> copies of \<open>alpha\<close>), and for
  any other value of the enumeration it returns the null pointer.
\<close>

theorem create_never_fails:
  "(w \<noteq> TW_size \<longrightarrow> create X w k0 a e r = Inr (Some (LDAModel_ctor X w k0 a e r)))
   \<and> create X TW_size k0 a e r = Inr None
   \<and> tw (LDAModel_ctor X w k0 a e r) = w
   \<and> K (LDAModel_ctor X w k0 a e r) = k0 mod (TID_MAX X + 1)
   \<and> alpha (LDAModel_ctor X w k0 a e r) = a
   \<and> eta (LDAModel_ctor X w k0 a e r) = e
   \<and> alphas (LDAModel_ctor X w k0 a e r) = replicate (k0 mod (TID_MAX X + 1)) a"
  by (cases w) (simp_all add: create_def LDAModel_ctor_def Let_def)

theorem create_never_fails_witness:
  "TW_idf \<noteq> TW_size
   \<and> create ext0 TW_idf 0 (- 1) 0 7 = Inr (Some (LDAModel_ctor ext0 TW_idf 0 (- 1) 0 7))
   \<and> create ext0 TW_size 0 (- 1) 0 7 = Inr None
   \<and> K (LDAModel_ctor ext0 TW_idf 0 (- 1) 0 7) = 0
   \<and> alpha (LDAModel_ctor ext0 TW_idf 0 (- 1) 0 7) = - 1
   \<and> alphas (LDAModel_ctor ext0 TW_idf 0 (- 1) 0 7) = []"
  using create_never_fails [of TW_idf ext0 0 "- 1" 0 7]
  by simp

text \<open>The claim C4 as stated fails: \<open>K = 0\<close>, \<open>alpha = -1\<close> and \<open>eta = 0\<close> each give a
  model, and the term weight \<open>size\<close> gives a null pointer, not an error.\<close>

theorem create_no_ConfigError_cex:
  "map_sum id (map_option K) (create ext0 TW_one 0 (1 / 10) (1 / 100) 7) = Inr (Some 0)
   \<and> map_sum id (map_option alpha) (create ext0 TW_one 2 (- 1) (1 / 100) 7) = Inr (Some (- 1))
   \<and> map_sum id (map_option eta) (create ext0 TW_one 2 (1 / 10) 0 7) = Inr (Some 0)
   \<and> create ext0 TW_size 2 (1 / 10) (1 / 100) 7 = Inr None"
  by (simp add: create_def LDAModel_ctor_def ext0_def)

subsection \<open>The optimizer\<close>

lemma fold_plus_upt:
  fixes g :: "nat \<Rightarrow> real"
  shows "fold (\<lambda>i r. r + g i) [0..<n] a = a + (\<Sum>i<n. g i)"
  by (induction n) simp_all

lemma sum_nth_sum_list:
  fixes g :: "'a \<Rightarrow> real"
  shows "(\<Sum>i<length xs. g (xs ! i)) = (\<Sum>x\<leftarrow>xs. g x)"
  by (simp add: sum_list_sum_nth atLeast0LessThan)

lemma calcDigammaSum_docs:
  "calcDigammaSum X (\<lambda>i. f (ds ! i)) (length ds) a
     = (\<Sum>d\<leftarrow>ds. digammaT X (f d + a) - digammaT X a)"
  unfolding calcDigammaSum_def Let_def
  by (simp add: fold_plus_upt sum_nth_sum_list [where g = "\<lambda>d. digammaT X (f d + a) - digammaT X a"])

lemma fold_bind_None: "fold (\<lambda>i r. Option.bind r (f i)) xs None = None"
  by (induction xs) simp_all

lemma optimizeTopic_eq:
  "denom \<noteq> 0 \<Longrightarrow> optimizeTopic X m denom k al
      = Some (al[k := max (spec_nom X m al k / denom * al ! k) (1 / 100000)])"
  unfolding optimizeTopic_def Let_def spec_nom_def
    calcDigammaSum_docs [where f = "\<lambda>d. doc_numByTopic d ! k"]
  by simp

lemma spec_nom_cong: "al ! k = bl ! k \<Longrightarrow> spec_nom X m al k = spec_nom X m bl k"
  by (simp add: spec_nom_def)

lemma optimizeTopic_fold:
  assumes "denom \<noteq> 0" "j \<le> length al"
  shows "fold (\<lambda>k r. Option.bind r (optimizeTopic X m denom k)) [0..<j] (Some al)
         = Some (map (\<lambda>k. if k < j then max (spec_nom X m al k / denom * al ! k) (1 / 100000)
                           else al ! k) [0..<length al])"
  using assms(2)
proof (induction j)
  case 0
  show ?case by (simp add: map_nth)
next
  case (Suc j)
  then have j: "j < length al" by simp
  define cur where "cur = map (\<lambda>k. if k < j then max (spec_nom X m al k / denom * al ! k) (1 / 100000)
                           else al ! k) [0..<length al]"
  have cur: "cur ! j = al ! j" using j by (simp add: cur_def)
  have len: "length cur = length al" by (simp add: cur_def)
  have IH: "fold (\<lambda>k r. Option.bind r (optimizeTopic X m denom k)) [0..<j] (Some al) = Some cur"
    using Suc by (simp add: cur_def)
  have "cur[j := max (spec_nom X m cur j / denom * cur ! j) (1 / 100000)]
        = map (\<lambda>k. if k < Suc j then max (spec_nom X m al k / denom * al ! k) (1 / 100000)
                           else al ! k) [0..<length al]"
  proof (rule nth_equalityI)
    show "length (cur[j := max (spec_nom X m cur j / denom * cur ! j) (1 / 100000)])
          = length (map (\<lambda>k. if k < Suc j then max (spec_nom X m al k / denom * al ! k) (1 / 100000)
                           else al ! k) [0..<length al])"
      by (simp add: len)
  next
    fix i assume "i < length (cur[j := max (spec_nom X m cur j / denom * cur ! j) (1 / 100000)])"
    then have i: "i < length al" by (simp add: len)
    show "cur[j := max (spec_nom X m cur j / denom * cur ! j) (1 / 100000)] ! i
          = map (\<lambda>k. if k < Suc j then max (spec_nom X m al k / denom * al ! k) (1 / 100000)
                           else al ! k) [0..<length al] ! i"
    proof (cases "i = j")
      case True
      then show ?thesis
        using j cur spec_nom_cong [OF cur, of X m] by (simp add: len)
    next
      case False
      then show ?thesis using i by (auto simp: cur_def)
    qed
  qed
  then show ?case
    using IH optimizeTopic_eq [OF assms(1), of X m j cur] by simp
qed

lemma optimizeIter_None:
  assumes "spec_denom X m al = 0" "0 < K m"
  shows "optimizeIter X m al = None"
proof -
  obtain j where j: "K m = Suc j" using assms(2) by (cases "K m") auto
  have "fold (\<lambda>k r. Option.bind r (optimizeTopic X m 0 k)) [0..<Suc j] (Some al) = None"
    by (simp add: upt_rec [of 0] optimizeTopic_def fold_bind_None del: upt_Suc)
  then show ?thesis
    using assms(1) j
    unfolding optimizeIter_def Let_def spec_denom_def [symmetric]
      calcDigammaSum_docs [where f = "getSumWordWeight (tw m)"]
    by (simp add: spec_denom_def)
qed

lemma optimizeIter_Some:
  assumes "length al = K m" "optimizeIter X m al = Some al'"
  shows "al' = spec_alpha_step X m al"
proof (cases "K m = 0")
  case True
  then show ?thesis using assms by (simp add: optimizeIter_def spec_alpha_step_def)
next
  case False
  then have d: "spec_denom X m al \<noteq> 0"
    using optimizeIter_None [of X m al] assms(2) by auto
  have "optimizeIter X m al
        = fold (\<lambda>k r. Option.bind r (optimizeTopic X m (spec_denom X m al) k)) [0..<K m] (Some al)"
    unfolding optimizeIter_def Let_def spec_denom_def
      calcDigammaSum_docs [where f = "getSumWordWeight (tw m)"] by simp
  also have "\<dots> = Some (map (\<lambda>k. if k < K m
                 then max (spec_nom X m al k / spec_denom X m al * al ! k) (1 / 100000)
                 else al ! k) [0..<length al])"
    using optimizeTopic_fold [OF d, of "K m" al X m] assms(1) by simp
  finally show ?thesis
    using assms by (auto simp: spec_alpha_step_def max.commute mult.commute)
qed


lemma optimizeIter_defined:
  assumes "spec_denom X m al \<noteq> 0" "length al = K m"
  shows "optimizeIter X m al = Some (spec_alpha_step X m al)"
proof -
  have "optimizeIter X m al
        = fold (\<lambda>k r. Option.bind r (optimizeTopic X m (spec_denom X m al) k)) [0..<K m] (Some al)"
    unfolding optimizeIter_def Let_def spec_denom_def
      calcDigammaSum_docs [where f = "getSumWordWeight (tw m)"] by simp
  also have "\<dots> = Some (map (\<lambda>k. if k < K m
                 then max (spec_nom X m al k / spec_denom X m al * al ! k) (1 / 100000)
                 else al ! k) [0..<length al])"
    using optimizeTopic_fold [OF assms(1), of "K m" al X m] assms(2) by simp
  finally show ?thesis
    using assms by (auto simp: spec_alpha_step_def max.commute mult.commute)
qed

lemma spec_alpha_step_length: "length (spec_alpha_step X m al) = length al"
  by (simp add: spec_alpha_step_def)

lemma spec_alpha_steps_length: "length ((spec_alpha_step X m ^^ n) al) = length al"
  by (induction n) (simp_all add: spec_alpha_step_length)

lemma spec_alpha_step_ge: "k < length al \<Longrightarrow> 1 / 100000 \<le> spec_alpha_step X m al ! k"
  by (simp add: spec_alpha_step_def)

lemma optimize_fold_Some:
  assumes "length al = K m"
  shows "fold (\<lambda>i r. Option.bind r (optimizeIter X m)) [0..<n] (Some al) = Some al'
         \<Longrightarrow> al' = (spec_alpha_step X m ^^ n) al"
proof (induction n arbitrary: al')
  case 0
  then show ?case by simp
next
  case (Suc n)
  then obtain bl where bl: "fold (\<lambda>i r. Option.bind r (optimizeIter X m)) [0..<n] (Some al) = Some bl"
    and step: "optimizeIter X m bl = Some al'"
    by (auto simp: bind_eq_Some_conv)
  have "bl = (spec_alpha_step X m ^^ n) al" using Suc.IH [OF bl] .
  moreover have "length bl = K m" using calculation assms by (simp add: spec_alpha_steps_length)
  ultimately show ?case using optimizeIter_Some [OF _ step] by simp
qed

lemma optimize_fold_defined:
  assumes "length al = K m" "\<And>i. i < n \<Longrightarrow> spec_denom X m ((spec_alpha_step X m ^^ i) al) \<noteq> 0"
  shows "fold (\<lambda>i r. Option.bind r (optimizeIter X m)) [0..<n] (Some al)
         = Some ((spec_alpha_step X m ^^ n) al)"
  using assms(2)
proof (induction n)
  case 0
  show ?case by simp
next
  case (Suc n)
  have "optimizeIter X m ((spec_alpha_step X m ^^ n) al)
        = Some (spec_alpha_step X m ((spec_alpha_step X m ^^ n) al))"
    using Suc.prems [of n] assms(1)
    by (intro optimizeIter_defined) (simp_all add: spec_alpha_steps_length)
  then show ?case using Suc by simp
qed

text \<open>
  C6 (as amended). An invocation of the optimizer that divides by no zero makes exactly
  ten iterations of the update of section 4.4: in each, \<open>denom\<close> is computed once from the
  \<open>alphas\<close> at the start of the iteration and every \<open>alphas[k]\<close> becomes
  \<open>max(1e-5, alphas[k] * nom\<^sub>k / denom)\<close>; so every \<open>alphas[k]\<close> is at least \<open>1e-5\<close> after
  the invocation. (Before the first invocation \<open>alphas[k]\<close> is \<open>alpha\<close>, which may be
  smaller.)
\<close>

theorem optimizeParameters_ten_steps:
  assumes "length (alphas m) = K m" and "optimizeParameters X m = Some m'"
  shows "m' = m\<lparr>alphas := (spec_alpha_step X m ^^ 10) (alphas m)\<rparr>
         \<and> (\<forall>k<K m. 1 / 100000 \<le> alphas m' ! k)"
proof -
  from assms(2) obtain al where
    al: "fold (\<lambda>i r. Option.bind r (optimizeIter X m)) [0..<10] (Some (alphas m)) = Some al"
    and m': "m' = m\<lparr>alphas := al\<rparr>"
    by (auto simp: optimizeParameters_def)
  have eq: "al = (spec_alpha_step X m ^^ 10) (alphas m)"
    using optimize_fold_Some [OF assms(1) al] .
  have al9: "al = spec_alpha_step X m ((spec_alpha_step X m ^^ 9) (alphas m))"
    unfolding eq by (simp add: numeral_eq_Suc)
  have "\<forall>k<K m. 1 / 100000 \<le> al ! k"
  proof (intro allI impI)
    fix k assume "k < K m"
    then have "k < length ((spec_alpha_step X m ^^ 9) (alphas m))"
      using assms(1) by (simp add: spec_alpha_steps_length)
    then show "1 / 100000 \<le> al ! k"
      unfolding al9 by (rule spec_alpha_step_ge)
  qed
  then show ?thesis using m' eq by simp
qed


lemma funpow_fixed: "f y = y \<Longrightarrow> (f ^^ n) y = y"
  by (induction n) simp_all

lemma spec_denom_d1:
  "docs m = [d1] \<Longrightarrow> tw m = TW_one \<Longrightarrow> spec_denom ext0 m al = 2"
  by (simp add: spec_denom_def d1_def ext0_def getSumWordWeight_def)

lemma spec_alpha_step_d1:
  assumes "docs m = [d1]" "tw m = TW_one"
  shows "spec_alpha_step ext0 m [a, b] = [max (1 / 100000) a, 1 / 100000]"
  unfolding spec_alpha_step_def spec_denom_d1 [OF assms]
  using assms by (simp add: spec_nom_def d1_def ext0_def)

lemma spec_alpha_steps_d1:
  assumes "docs m = [d1]" "tw m = TW_one"
  shows "(spec_alpha_step ext0 m ^^ Suc n) [1 / 10, 1 / 10] = [1 / 10, 1 / 100000]"
proof -
  have "(spec_alpha_step ext0 m ^^ Suc n) [1 / 10, 1 / 10]
        = (spec_alpha_step ext0 m ^^ n) (spec_alpha_step ext0 m [1 / 10, 1 / 10])"
    by (simp add: funpow_swap1)
  also have "\<dots> = (spec_alpha_step ext0 m ^^ n) [1 / 10, 1 / 100000]"
    by (simp add: spec_alpha_step_d1 [OF assms])
  also have "\<dots> = [1 / 10, 1 / 100000]"
    by (rule funpow_fixed) (simp add: spec_alpha_step_d1 [OF assms])
  finally show ?thesis .
qed

lemma optimizeParameters_d1:
  assumes "docs m = [d1]" "tw m = TW_one" "K m = 2" "alphas m = [1 / 10, 1 / 10]"
  shows "optimizeParameters ext0 m = Some (m\<lparr>alphas := [1 / 10, 1 / 100000]\<rparr>)"
proof -
  have "fold (\<lambda>i r. Option.bind r (optimizeIter ext0 m)) [0..<10] (Some (alphas m))
        = Some ((spec_alpha_step ext0 m ^^ 10) (alphas m))"
    by (rule optimize_fold_defined) (simp_all add: spec_denom_d1 assms)
  moreover have "(spec_alpha_step ext0 m ^^ 10) (alphas m) = [1 / 10, 1 / 100000]"
    using spec_alpha_steps_d1 [OF assms(1,2), of 9] by (simp add: assms)
  ultimately show ?thesis by (simp add: optimizeParameters_def)
qed

lemma optimizeParameters_m1:
  "optimizeParameters ext0 m1 = Some (m1\<lparr>alphas := [1 / 10, 1 / 100000]\<rparr>)"
  by (rule optimizeParameters_d1) (simp_all add: m1_def)

lemma spec_alpha_steps_m1:
  "(spec_alpha_step ext0 m1 ^^ Suc n) [1 / 10, 1 / 10] = [1 / 10, 1 / 100000]"
  by (rule spec_alpha_steps_d1) (simp_all add: m1_def)

theorem optimizeParameters_ten_steps_witness:
  "length (alphas m1) = K m1
   \<and> optimizeParameters ext0 m1 = Some (m1\<lparr>alphas := [1 / 10, 1 / 100000]\<rparr>)
   \<and> (spec_alpha_step ext0 m1 ^^ 10) (alphas m1) = [1 / 10, 1 / 100000]
   \<and> 1 / 100000 \<le> alphas (m1\<lparr>alphas := [1 / 10, 1 / 100000]\<rparr>) ! 0
   \<and> 1 / 100000 \<le> alphas (m1\<lparr>alphas := [1 / 10, 1 / 100000]\<rparr>) ! 1"
proof -
  have h1: "length (alphas m1) = K m1" by (simp add: m1_def)
  have h2: "optimizeParameters ext0 m1 = Some (m1\<lparr>alphas := [1 / 10, 1 / 100000]\<rparr>)"
    by (rule optimizeParameters_m1)
  have "(spec_alpha_step ext0 m1 ^^ 10) (alphas m1) = [1 / 10, 1 / 100000]"
    using spec_alpha_steps_m1 [of 9] by (simp add: m1_def)
  then show ?thesis
    using optimizeParameters_ten_steps [OF h1 h2] h1 h2 by simp
qed

text \<open>The claim C6 as stated fails in its last part: a model made with \<open>alpha = 1e-6\<close>
  (a positive value) has \<open>alphas[0] = 1e-6\<close>, below \<open>1e-5\<close>, until the optimizer runs.\<close>

theorem alphas_below_bound_cex:
  "alphas (LDAModel_ctor ext0 TW_one 1 (1 / 1000000) (1 / 100) 7) ! 0 < 1 / 100000"
  by (simp add: LDAModel_ctor_def ext0_def)

subsection \<open>Topics of a document\<close>

lemma spec_nom_m1_topic1: "spec_nom X m1 al (Suc 0) = 0"
  by (simp add: spec_nom_def m1_def d1_def)

lemma spec_alpha_step_m1_topic1:
  "length al = 2 \<Longrightarrow> spec_alpha_step X m1 al ! Suc 0 = 1 / 100000"
  unfolding spec_alpha_step_def by (simp add: spec_nom_m1_topic1)

lemma sum_list_two: "length (al :: real list) = 2 \<Longrightarrow> sum_list al = al ! 0 + al ! Suc 0"
  by (cases al; cases "tl al") auto

text \<open>
  C1. The claim has \<open>topics_by_doc\<close> use the vector \<open>alphas\<close>. The code
  (\<^verbatim>\<open>getTopicsByDoc\<close>, lines 630-639) uses the scalar \<open>alpha\<close> and \<open>K * alpha\<close>, which the
  optimizer never updates. On the model \<open>m1\<close>, whatever \<open>digammaT\<close> is, one invocation of
  the optimizer leaves \<open>alphas[1] = 1e-5\<close> while \<open>alpha\<close> stays \<open>0.1\<close>; the code then
  returns \<open>0.1 / 2.2\<close> for topic 1 of the document, where the formula of the claim gives
  less than \<open>1e-5 / 2\<close>.
\<close>

theorem getTopicsByDoc_ignores_alphas:
  assumes "optimizeParameters X m1 = Some m'"
  shows "docs m' = [d1] \<and> alpha m' = 1 / 10 \<and> alphas m' ! 1 = 1 / 100000
         \<and> getTopicsByDoc m' d1 = [21 / 22, 1 / 22]
         \<and> spec_topics_by_doc m' d1 1 < 1 / 200000
         \<and> getTopicsByDoc m' d1 ! 1 \<noteq> spec_topics_by_doc m' d1 1"
proof -
  from assms obtain al where
    al: "fold (\<lambda>i r. Option.bind r (optimizeIter X m1)) [0..<10] (Some (alphas m1)) = Some al"
    and m': "m' = m1\<lparr>alphas := al\<rparr>"
    by (auto simp: optimizeParameters_def)
  have len1: "length (alphas m1) = K m1" by (simp add: m1_def)
  define bl where "bl = (spec_alpha_step X m1 ^^ 9) (alphas m1)"
  have lenb: "length bl = 2" by (simp add: bl_def spec_alpha_steps_length m1_def)
  have "al = (spec_alpha_step X m1 ^^ 10) (alphas m1)"
    using optimize_fold_Some [OF len1 al] .
  then have al9: "al = spec_alpha_step X m1 bl"
    by (simp add: bl_def numeral_eq_Suc)
  have lena: "length al = 2" by (simp add: al9 spec_alpha_step_length lenb)
  have a1: "al ! Suc 0 = 1 / 100000"
    unfolding al9 using lenb by (rule spec_alpha_step_m1_topic1)
  have a0: "1 / 100000 \<le> al ! 0"
    unfolding al9 by (rule spec_alpha_step_ge) (simp add: lenb)
  have code: "getTopicsByDoc m' d1 = [21 / 22, 1 / 22]"
    by (simp add: getTopicsByDoc_def m' m1_def d1_def getSumWordWeight_def to_size_t_def)
  have "spec_topics_by_doc m' d1 1 = (1 / 100000) / (2 + (al ! 0 + 1 / 100000))"
    by (simp add: spec_topics_by_doc_def m' m1_def d1_def getSumWordWeight_def
        sum_list_two [OF lena] a1)
  also have "\<dots> < 1 / 200000"
    using a0 by (simp add: field_simps)
  finally have spec: "spec_topics_by_doc m' d1 1 < 1 / 200000" .
  have "getTopicsByDoc m' d1 ! 1 = 1 / 22" by (simp add: code)
  with spec have "getTopicsByDoc m' d1 ! 1 \<noteq> spec_topics_by_doc m' d1 1" by simp
  with code spec a1 show ?thesis by (simp add: m' m1_def)
qed

theorem getTopicsByDoc_ignores_alphas_witness:
  "optimizeParameters ext0 m1 = Some (m1\<lparr>alphas := [1 / 10, 1 / 100000]\<rparr>)
   \<and> alphas (m1\<lparr>alphas := [1 / 10, 1 / 100000]\<rparr>) ! 1 = 1 / 100000
   \<and> getTopicsByDoc (m1\<lparr>alphas := [1 / 10, 1 / 100000]\<rparr>) d1 = [21 / 22, 1 / 22]
   \<and> spec_topics_by_doc (m1\<lparr>alphas := [1 / 10, 1 / 100000]\<rparr>) d1 1 < 1 / 200000"
  using getTopicsByDoc_ignores_alphas [OF optimizeParameters_m1] optimizeParameters_m1
  by simp


text \<open>The second part of C1 holds of the code: a document without words gets, from
  \<^verbatim>\<open>initializeDocState\<close>, counts that are all zero, and its topic distribution is
  \<open>alpha / (K * alpha)\<close> for each of the \<open>K\<close> topics.\<close>

lemma to_size_t_zero: "to_size_t w 0 = 0"
  by (simp add: to_size_t_def)

lemma initializeDocState_no_words:
  "words doc = [] \<Longrightarrow>
   initializeDocState X m doc g ld r
     = (doc\<lparr>doc_numByTopic := replicate (K m) 0, Zs := [],
             wordWeights := (if tw m \<noteq> TW_one then [] else wordWeights doc)\<rparr>, ld, r)"
  by (simp add: initializeDocState_def prepareDoc_def Let_def)

lemma getTopicsByDoc_no_words:
  assumes "words doc = []" "tw m = TW_one \<or> wordWeights doc = []"
  shows "getTopicsByDoc m (fst (initializeDocState X m doc g ld r))
         = replicate (K m) (alpha m / (real (K m) * alpha m))"
  using assms
  by (auto simp: initializeDocState_no_words getTopicsByDoc_def getSumWordWeight_def
      to_size_t_zero map_replicate_const)

subsection \<open>The merge step\<close>

lemma nth_vadd: "j < length xs \<Longrightarrow> j < length ys \<Longrightarrow> vadd xs ys ! j = xs ! j + ys ! j"
  by (simp add: vadd_def)

lemma nth_vsub: "j < length xs \<Longrightarrow> j < length ys \<Longrightarrow> vsub xs ys ! j = xs ! j - ys ! j"
  by (simp add: vsub_def)

lemma length_vadd: "length (vadd xs ys) = min (length xs) (length ys)"
  by (simp add: vadd_def)

lemma length_vsub: "length (vsub xs ys) = min (length xs) (length ys)"
  by (simp add: vsub_def)

lemma nth_madd: "j < length xs \<Longrightarrow> j < length ys \<Longrightarrow> madd xs ys ! j = vadd (xs ! j) (ys ! j)"
  by (simp add: madd_def)

lemma nth_msub: "j < length xs \<Longrightarrow> j < length ys \<Longrightarrow> msub xs ys ! j = vsub (xs ! j) (ys ! j)"
  by (simp add: msub_def)

lemma length_madd: "length (madd xs ys) = min (length xs) (length ys)"
  by (simp add: madd_def)

lemma length_msub: "length (msub xs ys) = min (length xs) (length ys)"
  by (simp add: msub_def)

lemma state_dims_row:
  "state_dims k v s \<Longrightarrow> j < k \<Longrightarrow> length (numByTopicWord s ! j) = v"
  by (simp add: state_dims_def list_all_length)

lemma state_dims_mergeStep:
  assumes "state_dims k v t" "state_dims k v (L ! i)" "state_dims k v g"
  shows "state_dims k v (mergeStep t L i g)"
  using assms
  by (simp add: state_dims_def mergeStep_def length_vadd length_vsub length_madd length_msub
      list_all_length nth_madd nth_msub)

lemma numByTopic_mergeStep:
  assumes "state_dims k v t" "state_dims k v (L ! i)" "state_dims k v g" "j < k"
  shows "numByTopic (mergeStep t L i g) ! j
         = numByTopic g ! j + (numByTopic (L ! i) ! j - numByTopic t ! j)"
  using assms
  by (simp add: state_dims_def mergeStep_def nth_vadd nth_vsub length_vsub)

lemma numByTopicWord_mergeStep:
  assumes "state_dims k v t" "state_dims k v (L ! i)" "state_dims k v g" "j < k" "u < v"
  shows "numByTopicWord (mergeStep t L i g) ! j ! u
         = numByTopicWord g ! j ! u + (numByTopicWord (L ! i) ! j ! u - numByTopicWord t ! j ! u)"
proof -
  have r: "length (numByTopicWord t ! j) = v" "length (numByTopicWord (L ! i) ! j) = v"
    "length (numByTopicWord g ! j) = v"
    using assms by (simp_all add: state_dims_row)
  have l: "length (numByTopicWord t) = k" "length (numByTopicWord (L ! i)) = k"
    "length (numByTopicWord g) = k"
    using assms by (simp_all add: state_dims_def)
  show ?thesis
    using assms(4,5) r l
    by (simp add: mergeStep_def nth_madd nth_msub length_msub nth_vadd nth_vsub length_vsub)
qed

lemma fold_mergeStep:
  assumes t: "state_dims k v t" and L: "\<And>i. i < W \<Longrightarrow> state_dims k v (L ! i)"
    and g: "state_dims k v g0"
  shows "n \<le> W \<Longrightarrow>
     state_dims k v (fold (mergeStep t L) [1..<n] g0)
     \<and> (\<forall>j<k. numByTopic (fold (mergeStep t L) [1..<n] g0) ! j
               = numByTopic g0 ! j + (\<Sum>i = 1..<n. numByTopic (L ! i) ! j - numByTopic t ! j))
     \<and> (\<forall>j<k. \<forall>u<v. numByTopicWord (fold (mergeStep t L) [1..<n] g0) ! j ! u
               = numByTopicWord g0 ! j ! u
                 + (\<Sum>i = 1..<n. numByTopicWord (L ! i) ! j ! u - numByTopicWord t ! j ! u))"
proof (induction n)
  case 0
  show ?case using g by simp
next
  case (Suc n)
  show ?case
  proof (cases "n = 0")
    case True
    then show ?thesis using g by simp
  next
    case False
    then have up: "[1..<Suc n] = [1..<n] @ [n]" by simp
    define h where "h = fold (mergeStep t L) [1..<n] g0"
    have IH: "state_dims k v h"
      "\<forall>j<k. numByTopic h ! j
               = numByTopic g0 ! j + (\<Sum>i = 1..<n. numByTopic (L ! i) ! j - numByTopic t ! j)"
      "\<forall>j<k. \<forall>u<v. numByTopicWord h ! j ! u
               = numByTopicWord g0 ! j ! u
                 + (\<Sum>i = 1..<n. numByTopicWord (L ! i) ! j ! u - numByTopicWord t ! j ! u)"
      using Suc by (simp_all add: h_def)
    have Ln: "state_dims k v (L ! n)" using Suc.prems by (simp add: L)
    have f: "fold (mergeStep t L) [1..<Suc n] g0 = mergeStep t L n h"
      unfolding up by (simp add: h_def)
    have one: "Suc 0 \<le> n" using False by simp
    show ?thesis
      unfolding f
      using IH one
      by (simp add: state_dims_mergeStep [OF t Ln IH(1)] numByTopic_mergeStep [OF t Ln IH(1)]
          numByTopicWord_mergeStep [OF t Ln IH(1)] sum.atLeastLessThan_Suc)
  qed
qed

lemma fold_assign_all:
  "n \<le> length l \<Longrightarrow> fold (\<lambda>i l'. l'[i := x]) [0..<n] l = replicate n x @ drop n l"
proof (induction n)
  case 0
  show ?case by simp
next
  case (Suc n)
  then have "fold (\<lambda>i l'. l'[i := x]) [0..<Suc n] l = (replicate n x @ drop n l)[n := x]"
    by simp
  also have "\<dots> = replicate n x @ (drop n l)[0 := x]"
    by (simp add: list_update_append)
  also have "\<dots> = replicate (Suc n) x @ drop (Suc n) l"
  proof (cases "drop n l")
    case Nil
    then show ?thesis using Suc.prems by simp
  next
    case (Cons y ys)
    have "drop (Suc n) l = tl (drop n l)" by (simp add: drop_Suc tl_drop)
    then show ?thesis using Cons by (simp add: replicate_app_Cons_same)
  qed
  finally show ?case .
qed

lemma state_dims_cwiseMax0: "state_dims k v (cwiseMax0 g) = state_dims k v g"
  by (simp add: state_dims_def cwiseMax0_def list_all_length)

text \<open>
  C2. With \<open>G\<close> the global state before the merge and \<open>L\<^sub>0 \<dots> L\<^sub>W\<^sub>-\<^sub>1\<close> the local states
  (all with \<open>k\<close> topics and \<open>v\<close> words, \<open>W \<ge> 1\<close>), \<^verbatim>\<open>mergeState\<close> sets every entry of
  \<open>numByTopic\<close> and of \<open>numByTopicWord\<close> of the new global state to
  \<open>L\<^sub>0 + \<Sum>\<^sub>i\<^sub>\<ge>\<^sub>1 (L\<^sub>i - G)\<close>, clamped to \<open>\<ge> 0\<close> in the weighted modes and not clamped in mode
  \<open>one\<close>; it keeps \<open>G\<close> in \<open>tState\<close> and copies the new global state into every local
  state.
\<close>

theorem mergeState_formula:
  assumes "0 < W" and "length localData = W" and "state_dims k v gState"
    and "list_all (state_dims k v) localData"
    and "mergeState m W gState localData = (g', t', ls')"
  shows "(\<forall>j<k. numByTopic g' ! j
             = spec_merged (tw m) W (numByTopic gState ! j) (\<lambda>i. numByTopic (localData ! i) ! j))
       \<and> (\<forall>j<k. \<forall>u<v. numByTopicWord g' ! j ! u
             = spec_merged (tw m) W (numByTopicWord gState ! j ! u)
                 (\<lambda>i. numByTopicWord (localData ! i) ! j ! u))
       \<and> state_dims k v g' \<and> t' = gState \<and> ls' = replicate W g'"
proof -
  have L: "\<And>i. i < W \<Longrightarrow> state_dims k v (localData ! i)"
    using assms(2,4) by (simp add: list_all_length)
  have L0: "state_dims k v (localData ! 0)" using L assms(1) by simp
  define g1 where "g1 = fold (mergeStep gState localData) [1..<W] (localData ! 0)"
  have g1: "state_dims k v g1"
    "\<forall>j<k. numByTopic g1 ! j = numByTopic (localData ! 0) ! j
         + (\<Sum>i = 1..<W. numByTopic (localData ! i) ! j - numByTopic gState ! j)"
    "\<forall>j<k. \<forall>u<v. numByTopicWord g1 ! j ! u = numByTopicWord (localData ! 0) ! j ! u
         + (\<Sum>i = 1..<W. numByTopicWord (localData ! i) ! j ! u - numByTopicWord gState ! j ! u)"
    using fold_mergeStep [OF assms(3) L L0, of W W] by (simp_all add: g1_def)
  have g': "g' = (if tw m \<noteq> TW_one then cwiseMax0 g1 else g1)"
    and t': "t' = gState"
    and ls': "ls' = fold (\<lambda>i l. l[i := g']) [0..<W] localData"
    using assms(5) by (auto simp: mergeState_def Let_def g1_def)
  have copies: "ls' = replicate W g'"
    unfolding ls' using fold_assign_all [of W localData g'] assms(2) by simp
  have dims: "state_dims k v g'"
    using g1(1) by (simp add: g' state_dims_cwiseMax0)
  have rows: "\<And>j. j < k \<Longrightarrow> length (numByTopicWord g1 ! j) = v"
    using g1(1) by (simp add: state_dims_row)
  have lens: "length (numByTopic g1) = k" "length (numByTopicWord g1) = k"
    using g1(1) by (simp_all add: state_dims_def)
  have v1: "\<forall>j<k. numByTopic g' ! j
             = spec_merged (tw m) W (numByTopic gState ! j) (\<lambda>i. numByTopic (localData ! i) ! j)"
    using g1(2) lens
    by (simp add: g' cwiseMax0_def spec_merged_def spec_clamp_def max.commute)
  have v2: "\<forall>j<k. \<forall>u<v. numByTopicWord g' ! j ! u
             = spec_merged (tw m) W (numByTopicWord gState ! j ! u)
                 (\<lambda>i. numByTopicWord (localData ! i) ! j ! u)"
    using g1(3) lens rows
    by (simp add: g' cwiseMax0_def spec_merged_def spec_clamp_def max.commute)
  show ?thesis using v1 v2 dims t' copies by simp
qed

lemma mergeState_two_locals:
  "mergeState m_idf 2 (st 3) [st 1, st (1 / 2)] = (st 0, st 3, [st 0, st 0])"
  by (simp add: mergeState_def mergeStep_def cwiseMax0_def st_def m_idf_def vadd_def vsub_def
      madd_def msub_def Let_def numeral_2_eq_2)

theorem mergeState_formula_witness:
  "(0::nat) < 2 \<and> length [st 1, st (1 / 2)] = 2 \<and> state_dims 1 1 (st 3)
   \<and> list_all (state_dims 1 1) [st 1, st (1 / 2)]
   \<and> mergeState m_idf 2 (st 3) [st 1, st (1 / 2)] = (st 0, st 3, [st 0, st 0])
   \<and> numByTopic (st 0) ! 0
       = spec_merged (tw m_idf) 2 (numByTopic (st 3) ! 0) (\<lambda>i. numByTopic ([st 1, st (1 / 2)] ! i) ! 0)
   \<and> numByTopicWord (st 0) ! 0 ! 0
       = spec_merged (tw m_idf) 2 (numByTopicWord (st 3) ! 0 ! 0)
           (\<lambda>i. numByTopicWord ([st 1, st (1 / 2)] ! i) ! 0 ! 0)
   \<and> [st 0, st 0] = replicate 2 (st 0)"
proof -
  have h1: "(0::nat) < 2" by simp
  have h2: "length [st 1, st (1 / 2)] = 2" by simp
  have h3: "state_dims 1 1 (st 3)" by (simp add: state_dims_def st_def)
  have h4: "list_all (state_dims 1 1) [st 1, st (1 / 2)]" by (simp add: state_dims_def st_def)
  show ?thesis
    using mergeState_formula [OF h1 h2 h3 h4 mergeState_two_locals] h3 h4 mergeState_two_locals
    by (simp add: numeral_2_eq_2)
qed

text \<open>The merge of a training round is this function, applied to the members
  \<open>globalState\<close> and \<open>tState\<close> of the model.\<close>

lemma sampleAndMerge_globalState:
  assumes "sampleRound X m W sched (docs m, localData, rgs) = (ds, localData1, rgs1)"
    and "sampleAndMerge X sched W m localData rgs = (m', localData2, rgs2)"
  shows "(globalState m', tState m', localData2)
         = mergeState (m\<lparr>docs := ds\<rparr>) W (globalState m) localData1"
  using assms by (auto simp: sampleAndMerge_def Let_def split: prod.splits)

subsection \<open>When the optimizer runs\<close>

lemma sampleAndMerge_frame:
  assumes "sampleAndMerge X sched W m localData rgs = (m2, l2, r2)"
  shows "alphas m2 = alphas m \<and> alpha m2 = alpha m \<and> burnIn m2 = burnIn m
         \<and> iterated m2 = iterated m \<and> optimInterval m2 = optimInterval m
         \<and> tw m2 = tw m \<and> K m2 = K m \<and> eta m2 = eta m \<and> realV m2 = realV m"
proof -
  obtain ds g t where "m\<lparr>docs := ds, globalState := g, tState := t\<rparr> = m2"
    using assms by (auto simp: sampleAndMerge_def Let_def split: prod.splits)
  then have eq: "m2 = m\<lparr>docs := ds, globalState := g, tState := t\<rparr>" by (rule sym)
  show ?thesis unfolding eq by simp
qed

lemma optimizeParameters_frame:
  "optimizeParameters X m = Some m' \<Longrightarrow>
     burnIn m' = burnIn m \<and> iterated m' = iterated m \<and> optimInterval m' = optimInterval m
     \<and> alpha m' = alpha m \<and> docs m' = docs m \<and> globalState m' = globalState m"
  by (auto simp: optimizeParameters_def)

lemma optim_guard:
  "(burnIn m \<le> iterated m \<and> optimInterval m \<noteq> 0 \<and> (iterated m + 1) mod optimInterval m = 0)
   = spec_optim_due m"
  by (auto simp: spec_optim_due_def dvd_eq_mod_eq_0)

lemma trainOne_eq:
  assumes "sampleAndMerge X sched W m localData rgs = (m2, l2, r2)"
  shows "trainOne X sched W m localData rgs
         = (if spec_optim_due m then map_option (\<lambda>m3. (m3, l2, r2)) (optimizeParameters X m2)
            else Some (m2, l2, r2))"
proof -
  have fr: "burnIn m2 = burnIn m" "iterated m2 = iterated m" "optimInterval m2 = optimInterval m"
    using sampleAndMerge_frame [OF assms] by simp_all
  have due: "(burnIn m2 \<le> iterated m2 \<and> optimInterval m2 \<noteq> 0
              \<and> (iterated m2 + 1) mod optimInterval m2 = 0) = spec_optim_due m"
    using optim_guard [of m] by (simp add: fr)
  show ?thesis
    unfolding trainOne_def assms Let_def prod.case due ..
qed

lemma optim_off: "optimInterval m = 0 \<Longrightarrow> \<not> spec_optim_due m"
  by (simp add: spec_optim_due_def)

text \<open>
  C3. In the round that follows \<open>r = iterated\<close> completed rounds, \<^verbatim>\<open>trainOne\<close> runs the
  optimizer on the merged model if and only if \<open>r \<ge> burn_in\<close>, \<open>optim_interval > 0\<close> and
  \<open>optim_interval\<close> divides \<open>r + 1\<close>; otherwise the round ends with the merged model.
  The sampling and the merge leave \<open>alphas\<close> as they are, so with \<open>optim_interval = 0\<close>
  a round returns with the \<open>alphas\<close> it started from.
\<close>

theorem trainOne_optimizes_iff:
  assumes "sampleAndMerge X sched W m localData rgs = (m2, l2, r2)"
  shows "(spec_optim_due m \<longrightarrow>
            trainOne X sched W m localData rgs
              = map_option (\<lambda>m3. (m3, l2, r2)) (optimizeParameters X m2))
       \<and> (\<not> spec_optim_due m \<longrightarrow> trainOne X sched W m localData rgs = Some (m2, l2, r2))
       \<and> alphas m2 = alphas m
       \<and> (optimInterval m = 0 \<longrightarrow>
            map_option (\<lambda>(m', l', r'). alphas m') (trainOne X sched W m localData rgs)
              = Some (alphas m))"
  using trainOne_eq [OF assms] sampleAndMerge_frame [OF assms] optim_off [of m]
  by auto

lemma ext0_sel:
  "digammaT ext0 = (\<lambda>x. x)" "lgammaT ext0 = (\<lambda>x. x * x)" "updateCnt ext0 = (\<lambda>dec v inc. v + inc)"
  "rand_raw ext0 r = (r, Suc r)" "rand_tid ext0 a b r = (b, Suc r)"
  "rand_unit ext0 r = (1 / 2, Suc r)" "seed_rg ext0 s = s" "default_rg ext0 = 0"
  "forRandom ext0 n seed = [0..<n]" "TID_MAX ext0 = 65535" "hardware_concurrency ext0 = 4"
  by (simp_all add: ext0_def)

lemma sampleToken_d1:
  assumes "tw m = TW_one" "K m = 2" "alphas m = [1 / 10, 1 / 10]" "eta m = 1 / 100" "realV m = 1"
    and "i < 2"
  shows "sampleToken ext0 m i
           (d1, \<lparr>zLikelihood = zl, numByTopic = [2, 0], numByTopicWord = [[2], [0]]\<rparr>, r)
         = (d1, s1, Suc r)"
proof -
  have "i = 0 \<or> i = Suc 0" using assms(6) by auto
  then show ?thesis
    by (auto simp: assms(1-5) sampleToken_def d1_def s1_def ext0_def addWordTo_def
        getZLikelihoods_def prefixSum_def sampleFromDiscreteAcc_def Let_def numeral_2_eq_2)
qed

lemma sampleDocument_d1:
  assumes "tw m = TW_one" "K m = 2" "alphas m = [1 / 10, 1 / 10]" "eta m = 1 / 100" "realV m = 1"
  shows "sampleDocument ext0 m d1
           \<lparr>zLikelihood = zl, numByTopic = [2, 0], numByTopicWord = [[2], [0]]\<rparr> r
         = (d1, s1, Suc (Suc r))"
proof -
  have w: "[0..<length (words d1)] = [0, Suc 0]" by (simp add: d1_def)
  have a: "sampleToken ext0 m 0
             (d1, \<lparr>zLikelihood = zl, numByTopic = [2, 0], numByTopicWord = [[2], [0]]\<rparr>, r)
           = (d1, s1, Suc r)"
    by (rule sampleToken_d1 [OF assms]) simp
  have b: "sampleToken ext0 m (Suc 0) (d1, s1, Suc r) = (d1, s1, Suc (Suc r))"
    unfolding s1_def [of] using sampleToken_d1 [OF assms, of "Suc 0" "[11 / 10, 6 / 5]" "Suc r"]
    by (simp add: s1_def)
  show ?thesis unfolding sampleDocument_def w by (simp add: a b)
qed

lemma sampleAndMerge_d1:
  assumes "tw m = TW_one" "K m = 2" "alphas m = [1 / 10, 1 / 10]" "eta m = 1 / 100" "realV m = 1"
    and "docs m = [d1]" "globalState m = globalState m1"
  shows "sampleAndMerge ext0 (\<lambda>ch. 0) 1 m [globalState m1] [7]
         = (m\<lparr>docs := [d1], globalState := s1, tState := globalState m1\<rparr>, [s1], [10])"
proof -
  have g: "globalState m1 = \<lparr>zLikelihood = [0, 0], numByTopic = [2, 0], numByTopicWord = [[2], [0]]\<rparr>"
    by (simp add: m1_def)
  have sd: "sampleDocument ext0 m d1 (globalState m1) 8 = (d1, s1, 10)"
    unfolding g using sampleDocument_d1 [OF assms(1-5), of "[0, 0]" 8] by simp
  have "sampleChunk ext0 m (Suc 0) 0 0 ([d1], [globalState m1], [7]) = ([d1], [s1], [10])"
    by (simp add: sampleChunk_def Let_def ext0_sel sd)
  then have sr: "sampleRound ext0 m (Suc 0) (\<lambda>ch. 0) (docs m, [globalState m1], [7])
                 = ([d1], [s1], [10])"
    by (simp add: sampleRound_def assms(6))
  have mg: "mergeState (m\<lparr>docs := [d1]\<rparr>) (Suc 0) (globalState m1) [s1]
            = (s1, globalState m1, [s1])"
    by (simp add: mergeState_def Let_def assms(1))
  show ?thesis
    by (simp add: sampleAndMerge_def sr mg assms(7))
qed

lemma sampleAndMerge_m1:
  "sampleAndMerge ext0 (\<lambda>ch. 0) 1 m1 [globalState m1] [7] = (m1_merged, [s1], [10])"
proof -
  have "m1\<lparr>docs := [d1], globalState := s1, tState := globalState m1\<rparr> = m1_merged"
    by (simp add: m1_merged_def m1_def)
  then show ?thesis
    using sampleAndMerge_d1 [of m1] by (simp add: m1_def)
qed

lemma sampleAndMerge_m1_off:
  "sampleAndMerge ext0 (\<lambda>ch. 0) 1 m1_off [globalState m1] [7]
   = (m1_off\<lparr>globalState := s1, tState := globalState m1\<rparr>, [s1], [10])"
proof -
  have "m1_off\<lparr>docs := [d1], globalState := s1, tState := globalState m1\<rparr>
        = m1_off\<lparr>globalState := s1, tState := globalState m1\<rparr>"
    by (simp add: m1_off_def m1_def)
  then show ?thesis
    using sampleAndMerge_d1 [of m1_off] by (simp add: m1_off_def m1_def)
qed

lemma optimizeParameters_m1_merged:
  "optimizeParameters ext0 m1_merged = Some (m1_merged\<lparr>alphas := [1 / 10, 1 / 100000]\<rparr>)"
  by (rule optimizeParameters_d1) (simp_all add: m1_merged_def m1_def)

theorem trainOne_optimizes_iff_witness:
  "sampleAndMerge ext0 (\<lambda>ch. 0) 1 m1 [globalState m1] [7] = (m1_merged, [s1], [10])
   \<and> spec_optim_due m1
   \<and> trainOne ext0 (\<lambda>ch. 0) 1 m1 [globalState m1] [7]
       = Some (m1_merged\<lparr>alphas := [1 / 10, 1 / 100000]\<rparr>, [s1], [10])
   \<and> optimInterval m1_off = 0
   \<and> \<not> spec_optim_due m1_off
   \<and> trainOne ext0 (\<lambda>ch. 0) 1 m1_off [globalState m1] [7]
       = Some (m1_off\<lparr>globalState := s1, tState := globalState m1\<rparr>, [s1], [10])
   \<and> alphas (m1_off\<lparr>globalState := s1, tState := globalState m1\<rparr>) = alphas m1_off"
proof -
  have due: "spec_optim_due m1" by (simp add: spec_optim_due_def m1_def)
  have off: "optimInterval m1_off = 0" by (simp add: m1_off_def)
  have ndue: "\<not> spec_optim_due m1_off" by (simp add: spec_optim_due_def off)
  show ?thesis
    using trainOne_optimizes_iff [OF sampleAndMerge_m1] trainOne_optimizes_iff [OF sampleAndMerge_m1_off]
      due off ndue sampleAndMerge_m1 optimizeParameters_m1_merged
    by simp
qed

text \<open>Over the rounds of \<open>train\<close>: with \<open>optim_interval = 0\<close> every round returns, and
  \<open>alphas\<close> are after any number of rounds what they were before the first.\<close>

lemma train_optim_off:
  "optimInterval m = 0 \<Longrightarrow>
   \<exists>m' l' r'. train X scheds W n m localData rgs = Some (m', l', r')
      \<and> alphas m' = alphas m \<and> optimInterval m' = 0 \<and> iterated m' = iterated m + n"
proof (induction n arbitrary: m localData rgs)
  case 0
  then show ?case by simp
next
  case (Suc n)
  obtain m2 l2 r2 where sm: "sampleAndMerge X (scheds (iterated m)) W m localData rgs = (m2, l2, r2)"
    by (cases "sampleAndMerge X (scheds (iterated m)) W m localData rgs") auto
  have t: "trainOne X (scheds (iterated m)) W m localData rgs = Some (m2, l2, r2)"
    using trainOne_eq [OF sm] optim_off [OF Suc.prems] by simp
  have fr: "alphas m2 = alphas m" "optimInterval m2 = 0" "iterated m2 = iterated m"
    using sampleAndMerge_frame [OF sm] Suc.prems by simp_all
  have "optimInterval (m2\<lparr>iterated := iterated m2 + 1\<rparr>) = 0" using fr by simp
  from Suc.IH [OF this, of l2 r2] show ?case
    using t fr by auto
qed

subsection \<open>Out-of-vocabulary positions\<close>

lemma addWordTo_doc:
  "addWordTo X m inc ld doc pid vid tid = (ld', doc') \<Longrightarrow>
     words doc' = words doc \<and> wordWeights doc' = wordWeights doc \<and> Zs doc' = Zs doc"
  by (auto simp: addWordTo_def Let_def)


lemma initToken_oov:
  "realV m \<le> words doc ! i \<Longrightarrow> initToken X m g tf i (doc, ld, r) = (doc, ld, r)"
  by (simp add: initToken_def)

lemma sampleToken_oov:
  "realV m \<le> words doc ! w \<Longrightarrow> sampleToken X m w (doc, ld, r) = (doc, ld, r)"
  by (simp add: sampleToken_def)






lemma upt_0_2: "[0..<2] = [0, Suc 0]"
  by (simp add: numeral_2_eq_2)

lemma initializeDocState_m1_fresh:
  "initializeDocState ext0 m1 d_fresh (makeGeneratorForInit ext0 m1) (globalState m1) 7
   = (d_oov, \<lparr>zLikelihood = [0, 0], numByTopic = [2, 1], numByTopicWord = [[2], [1]]\<rparr>, 8)"
  by (simp add: initializeDocState_def prepareDoc_def termFreq_def initToken_def
      updateStateWithDoc_def addWordTo_def makeGeneratorForInit_def Let_def ext0_sel
      m1_def d_fresh_def d_oov_def upt_0_2 numeral_2_eq_2)


lemma fold_fixed: "(\<And>x. x \<in> set xs \<Longrightarrow> f x s = s) \<Longrightarrow> fold f xs s = s"
  by (induction xs) simp_all

text \<open>What holds of C7: at an out-of-vocabulary position \<^verbatim>\<open>initializeDocState\<close> and
  \<^verbatim>\<open>sampleDocument\<close> do nothing (\<open>initToken_oov\<close>, \<open>sampleToken_oov\<close>: no draw, no count,
  no weight, no topic stored), so a document without a word of the vocabulary leaves the
  state and the generator as they are; and \<^verbatim>\<open>_getTopicsCount\<close> passes over such a
  position.\<close>

lemma initializeDocState_all_oov:
  assumes "\<forall>w \<in> set (words doc). realV m \<le> w"
  shows "initializeDocState X m doc g ld r = (prepareDoc m doc (length (words doc)), ld, r)"
proof -
  have w: "words (prepareDoc m doc (length (words doc))) = words doc"
    by (simp add: prepareDoc_def)
  show ?thesis
    unfolding initializeDocState_def Let_def w
    by (rule fold_fixed) (use assms w in \<open>simp add: initToken_oov\<close>)
qed

lemma sampleDocument_all_oov:
  assumes "\<forall>w \<in> set (words doc). realV m \<le> w"
  shows "sampleDocument X m doc ld r = (doc, ld, r)"
  unfolding sampleDocument_def
  by (rule fold_fixed) (use assms in \<open>simp add: sampleToken_oov\<close>)

lemma count_doc_all_oov:
  assumes "length (Zs d) = length (words d)" "\<forall>w \<in> set (words d). realV m \<le> w"
  shows "fold (\<lambda>i cnt. if words d ! i < realV m then cnt[Zs d ! i := cnt ! (Zs d ! i) + 1] else cnt)
           [0..<length (Zs d)] (c :: nat list) = c"
proof (rule fold_fixed)
  fix i assume "i \<in> set [0..<length (Zs d)]"
  then have "words d ! i \<in> set (words d)" using assms(1) by simp
  then have "\<not> words d ! i < realV m" using assms(2) by (simp add: not_less)
  then show "(if words d ! i < realV m then c[Zs d ! i := c ! (Zs d ! i) + 1] else c) = c"
    by simp
qed

lemma getTopicsCount_all_oov:
  assumes "\<forall>d \<in> set (docs m). length (Zs d) = length (words d) \<and> (\<forall>w \<in> set (words d). realV m \<le> w)"
  shows "getTopicsCount m = replicate (K m) 0"
  unfolding getTopicsCount_def
  by (rule fold_fixed, rule count_doc_all_oov) (use assms in auto)

text \<open>
  C7. The claim has out-of-vocabulary tokens contribute to no count across every
  operation. \<^verbatim>\<open>DocumentLDA::update\<close> (lines 89-96), which \<^verbatim>\<open>prepare(false)\<close> runs on
  every document through \<^verbatim>\<open>updateDocs\<close>, has no test \<open>words[i] < V\<close>: it adds the weight
  of every position to \<open>numByTopic[Zs[i]]\<close>. The document \<open>[0, 7]\<close> of a model with the
  single word 0 leaves \<^verbatim>\<open>initializeDocState\<close> with the counts \<open>[0, 1]\<close> (position 1 is out
  of the vocabulary and has the \<open>Zs\<close> entry 0 it was allocated with); \<^verbatim>\<open>update\<close> of that
  same document gives \<open>[1, 1]\<close>, while \<^verbatim>\<open>_getTopicsCount\<close> counts \<open>[0, 1]\<close>.
\<close>

theorem update_counts_oov:
  "initializeDocState ext0 m1 d_fresh (makeGeneratorForInit ext0 m1) (globalState m1) 7
     = (d_oov, \<lparr>zLikelihood = [0, 0], numByTopic = [2, 1], numByTopicWord = [[2], [1]]\<rparr>, 8)
   \<and> realV m1 \<le> words d_oov ! 1
   \<and> doc_numByTopic d_oov = [0, 1]
   \<and> doc_numByTopic (update (tw m1) (K m1) d_oov) = [1, 1]
   \<and> docs (updateDocs (m1\<lparr>docs := [d_oov]\<rparr>)) = [d_oov\<lparr>doc_numByTopic := [1, 1]\<rparr>]
   \<and> getTopicsCount (m1\<lparr>docs := [d_oov]\<rparr>) = [0, 1]"
  using initializeDocState_m1_fresh
  by (simp add: update_def updateDocs_def getTopicsCount_def m1_def d_oov_def upt_0_2
      numeral_2_eq_2)

text \<open>For every document whose \<open>Zs\<close> are topics, the counts that \<^verbatim>\<open>update\<close> builds add up
  to the weights of all the positions, those out of the vocabulary included: in mode
  \<open>one\<close>, to the number of positions.\<close>

lemma sum_list_update_add:
  fixes xs :: "real list"
  shows "i < length xs \<Longrightarrow> sum_list (xs[i := xs ! i + w]) = sum_list xs + w"
proof (induction xs arbitrary: i)
  case Nil
  then show ?case by simp
next
  case (Cons x xs)
  then show ?case by (cases i) simp_all
qed

lemma update_fold_sum:
  fixes f :: "nat \<Rightarrow> real"
  assumes "\<forall>i \<in> set is. z i < length nbt"
  shows "length (fold (\<lambda>i nbt. nbt[z i := nbt ! z i + f i]) is nbt) = length nbt
         \<and> sum_list (fold (\<lambda>i nbt. nbt[z i := nbt ! z i + f i]) is nbt)
             = sum_list nbt + (\<Sum>i\<leftarrow>is. f i)"
  using assms
proof (induction "is" arbitrary: nbt)
  case Nil
  show ?case by simp
next
  case (Cons i "is")
  have "\<forall>j \<in> set is. z j < length (nbt[z i := nbt ! z i + f i])" using Cons.prems by simp
  from Cons.IH [OF this] show ?case
    using Cons.prems by (simp add: sum_list_update_add)
qed

lemma update_sums_every_position:
  assumes "\<forall>i<length (Zs doc). Zs doc ! i < k"
  shows "sum_list (doc_numByTopic (update w k doc))
         = (\<Sum>i\<leftarrow>[0..<length (Zs doc)]. if w \<noteq> TW_one then wordWeights doc ! i else 1)"
proof -
  have "\<forall>i \<in> set [0..<length (Zs doc)]. Zs doc ! i < length (replicate k (0::real))"
    using assms by simp
  from update_fold_sum [OF this, of "\<lambda>i. if w \<noteq> TW_one then wordWeights doc ! i else 1"]
  show ?thesis by (simp add: update_def sum_list_replicate)
qed

lemma update_one_counts_every_position:
  assumes "\<forall>i<length (Zs doc). Zs doc ! i < k"
  shows "sum_list (doc_numByTopic (update TW_one k doc)) = real (length (Zs doc))"
  using update_sums_every_position [OF assms, of TW_one] by (simp add: sum_list_triv)

subsection \<open>The proposal and the draw\<close>

lemma length_prefixSum_from: "length (prefixSum_from a xs) = length xs"
  by (induction xs arbitrary: a) simp_all

lemma nth_prefixSum_from:
  "k < length xs \<Longrightarrow> prefixSum_from a xs ! k = a + (\<Sum>j\<le>k. xs ! j)"
proof (induction xs arbitrary: a k)
  case Nil
  then show ?case by simp
next
  case (Cons x xs)
  show ?case
  proof (cases k)
    case 0
    then show ?thesis by simp
  next
    case (Suc n)
    then have "n < length xs" using Cons.prems by simp
    from Cons.IH [OF this, of "a + x"] show ?thesis
      using Suc by (simp add: sum.atMost_Suc_shift add.assoc del: sum.atMost_Suc)
  qed
qed

lemma first_ge_least:
  "\<exists>k<length p. u \<le> p ! k \<Longrightarrow>
     first_ge p u < length p \<and> u \<le> p ! first_ge p u \<and> (\<forall>j<first_ge p u. p ! j < u)"
proof (induction p)
  case Nil
  then show ?case by simp
next
  case (Cons x p)
  show ?case
  proof (cases "u \<le> x")
    case True
    then show ?thesis by simp
  next
    case False
    from Cons.prems obtain k where k: "k < length (x # p)" "u \<le> (x # p) ! k" by auto
    with False obtain k' where "k = Suc k'" by (cases k) auto
    with k have "\<exists>k<length p. u \<le> p ! k" by auto
    from Cons.IH [OF this] show ?thesis
      using False by (auto simp: less_Suc_eq_0_disj not_le)
  qed
qed

lemma getZLikelihoods_prefix:
  assumes "getZLikelihoods m ld doc v = (ld', p)"
  shows "zLikelihood ld' = p \<and> length p = K m
         \<and> numByTopic ld' = numByTopic ld \<and> numByTopicWord ld' = numByTopicWord ld
         \<and> (\<forall>k<K m. p ! k = (\<Sum>j\<le>k. spec_proposal m doc ld v j))"
proof -
  define zl where "zl = map (spec_proposal m doc ld v) [0..<K m]"
  have sp: "spec_proposal m doc ld v
            = (\<lambda>k. (doc_numByTopic doc ! k + alphas m ! k) * (numByTopicWord ld ! k ! v + eta m)
                     / (numByTopic ld ! k + real (realV m) * eta m))"
    by (rule ext) (simp add: spec_proposal_def)
  have p: "p = prefixSum zl (K m)" and ld': "ld' = ld\<lparr>zLikelihood := p\<rparr>"
    using assms by (auto simp: getZLikelihoods_def Let_def zl_def sp)
  have pf: "p = prefixSum_from 0 zl" by (simp add: p prefixSum_def zl_def)
  have "\<forall>k<K m. p ! k = (\<Sum>j\<le>k. spec_proposal m doc ld v j)"
  proof (intro allI impI)
    fix k assume k: "k < K m"
    then have "p ! k = 0 + (\<Sum>j\<le>k. zl ! j)"
      unfolding pf by (intro nth_prefixSum_from) (simp add: zl_def)
    also have "(\<Sum>j\<le>k. zl ! j) = (\<Sum>j\<le>k. spec_proposal m doc ld v j)"
      by (rule sum.cong) (use k in \<open>auto simp: zl_def\<close>)
    finally show "p ! k = (\<Sum>j\<le>k. spec_proposal m doc ld v j)" by simp
  qed
  then show ?thesis by (simp add: ld' pf length_prefixSum_from zl_def)
qed

lemma addWordTo_zLikelihood:
  "addWordTo X m inc ld doc pid vid tid = (ld', doc') \<Longrightarrow> zLikelihood ld' = zLikelihood ld"
  by (auto simp: addWordTo_def Let_def)

text \<open>
  C5. At a position \<open>w\<close> with a word \<open>v\<close> of the vocabulary, with \<open>doc1\<close> and \<open>ld1\<close> the
  document and the state after the decrement of the current assignment, \<^verbatim>\<open>sampleDocument\<close>
  leaves in \<open>zLikelihood\<close> the running sums of the unnormalised weights
  \<open>(doc1.numByTopic[k] + alphas[k]) * (ld1.numByTopicWord[k][v] + eta) / (ld1.numByTopic[k] + V * eta)\<close>,
  draws \<open>u = c * zLikelihood[K-1]\<close> with \<open>c\<close> uniform in \<open>[0, 1)\<close>, and stores in \<open>Zs[w]\<close> the
  smallest \<open>k\<close> with \<open>zLikelihood[k] \<ge> u\<close>.
\<close>

theorem sampleToken_proposal:
  assumes "w < length (Zs doc)" and "words doc ! w < realV m"
    and "addWordTo X m (- 1) ld doc w (words doc ! w) (Zs doc ! w) = (ld1, doc1)"
    and "sampleToken X m w (doc, ld, r) = (doc3, ld3, r3)"
    and "rand_unit X r = (c, r')"
    and "\<exists>k<K m. c * zLikelihood ld3 ! (K m - 1) \<le> zLikelihood ld3 ! k"
  shows "length (zLikelihood ld3) = K m
       \<and> (\<forall>k<K m. zLikelihood ld3 ! k = (\<Sum>j\<le>k. spec_proposal m doc1 ld1 (words doc ! w) j))
       \<and> r3 = r'
       \<and> Zs doc3 ! w < K m
       \<and> c * zLikelihood ld3 ! (K m - 1) \<le> zLikelihood ld3 ! (Zs doc3 ! w)
       \<and> (\<forall>j<Zs doc3 ! w. zLikelihood ld3 ! j < c * zLikelihood ld3 ! (K m - 1))"
proof -
  have w1: "words doc1 = words doc" "Zs doc1 = Zs doc"
    using addWordTo_doc [OF assms(3)] by simp_all
  obtain ld2 p where gz: "getZLikelihoods m ld1 doc1 (words doc ! w) = (ld2, p)"
    by (cases "getZLikelihoods m ld1 doc1 (words doc ! w)") auto
  note P = getZLikelihoods_prefix [OF gz]
  have lenp: "length p = K m" using P by simp
  define u where "u = c * last p"
  define z where "z = first_ge p u"
  define doc2 where "doc2 = doc1\<lparr>Zs := (Zs doc1)[w := z]\<rparr>"
  have st: "(doc3, ld3, r3)
            = (case addWordTo X m 1 ld2 doc2 w (words doc2 ! w) (Zs doc2 ! w) of
                 (ld3, doc3) \<Rightarrow> (doc3, ld3, r'))"
    using assms(2,4)
    by (simp add: sampleToken_def assms(3) w1 gz lenp sampleFromDiscreteAcc_def assms(5)
        Let_def u_def z_def doc2_def not_le [symmetric])
  obtain ld3' doc3' where aw: "addWordTo X m 1 ld2 doc2 w (words doc2 ! w) (Zs doc2 ! w) = (ld3', doc3')"
    by (cases "addWordTo X m 1 ld2 doc2 w (words doc2 ! w) (Zs doc2 ! w)") auto
  have eq: "doc3 = doc3'" "ld3 = ld3'" "r3 = r'" using st aw by simp_all
  have zl3: "zLikelihood ld3 = p"
    using addWordTo_zLikelihood [OF aw] P eq by simp
  have Z3: "Zs doc3 ! w = z"
    using addWordTo_doc [OF aw] eq assms(1) w1 by (simp add: doc2_def)
  have K0: "0 < K m" using assms(6) by auto
  then have "p \<noteq> []" using lenp by auto
  then have lastp: "last p = p ! (K m - 1)"
    using lenp by (simp add: last_conv_nth)
  have "\<exists>k<length p. u \<le> p ! k"
    using assms(6) by (simp add: zl3 u_def lastp lenp)
  from first_ge_least [OF this]
  have "z < K m" "u \<le> p ! z" "\<forall>j<z. p ! j < u"
    by (simp_all add: z_def lenp)
  then show ?thesis
    using P eq(3) by (simp add: zl3 Z3 u_def lastp)
qed

lemma draw_below_total:
  fixes c t :: real
  shows "0 \<le> c \<Longrightarrow> c \<le> 1 \<Longrightarrow> 0 \<le> t \<Longrightarrow> c * t \<le> t"
  by (simp add: mult_left_le_one_le)

theorem sampleToken_proposal_witness:
  "(0::nat) < length (Zs d1) \<and> words d1 ! 0 < realV m1
   \<and> addWordTo ext0 m1 (- 1) (globalState m1) d1 0 (words d1 ! 0) (Zs d1 ! 0)
       = (\<lparr>zLikelihood = [0, 0], numByTopic = [1, 0], numByTopicWord = [[1], [0]]\<rparr>,
          d1\<lparr>doc_numByTopic := [1, 0]\<rparr>)
   \<and> sampleToken ext0 m1 0 (d1, globalState m1, 7) = (d1, s1, 8)
   \<and> rand_unit ext0 7 = (1 / 2, 8)
   \<and> 1 / 2 * zLikelihood s1 ! (K m1 - 1) \<le> zLikelihood s1 ! 0
   \<and> zLikelihood s1 = [11 / 10, 6 / 5]
   \<and> spec_proposal m1 (d1\<lparr>doc_numByTopic := [1, 0]\<rparr>)
        \<lparr>zLikelihood = [0, 0], numByTopic = [1, 0], numByTopicWord = [[1], [0]]\<rparr> (words d1 ! 0) 0
       = 11 / 10
   \<and> Zs d1 ! 0 < K m1"
proof -
  have h1: "(0::nat) < length (Zs d1)" by (simp add: d1_def)
  have h2: "words d1 ! 0 < realV m1" by (simp add: d1_def m1_def)
  have h3: "addWordTo ext0 m1 (- 1) (globalState m1) d1 0 (words d1 ! 0) (Zs d1 ! 0)
       = (\<lparr>zLikelihood = [0, 0], numByTopic = [1, 0], numByTopicWord = [[1], [0]]\<rparr>,
          d1\<lparr>doc_numByTopic := [1, 0]\<rparr>)"
    by (simp add: addWordTo_def Let_def ext0_sel m1_def d1_def)
  have g: "globalState m1 = \<lparr>zLikelihood = [0, 0], numByTopic = [2, 0], numByTopicWord = [[2], [0]]\<rparr>"
    by (simp add: m1_def)
  have h4: "sampleToken ext0 m1 0 (d1, globalState m1, 7) = (d1, s1, 8)"
    unfolding g using sampleToken_d1 [of m1 0 "[0, 0]" 7] by (simp add: m1_def)
  have h5: "rand_unit ext0 7 = (1 / 2, 8)" by (simp add: ext0_sel)
  have h6': "1 / 2 * zLikelihood s1 ! (K m1 - 1) \<le> zLikelihood s1 ! 0"
    by (simp add: s1_def m1_def)
  have h6: "\<exists>k<K m1. 1 / 2 * zLikelihood s1 ! (K m1 - 1) \<le> zLikelihood s1 ! k"
    using h6' by (intro exI [of _ 0]) (simp add: m1_def)
  have sp: "spec_proposal m1 (d1\<lparr>doc_numByTopic := [1, 0]\<rparr>)
        \<lparr>zLikelihood = [0, 0], numByTopic = [1, 0], numByTopicWord = [[1], [0]]\<rparr> (words d1 ! 0) 0
       = 11 / 10"
    by (simp add: spec_proposal_def m1_def d1_def)
  show ?thesis
    using sampleToken_proposal [OF h1 h2 h3 h4 h5 h6] h1 h2 h3 h4 h5 h6' sp
    by (simp add: s1_def)
qed

subsection \<open>The log-likelihood\<close>

lemma fold_docs_sum:
  fixes h :: "'a \<Rightarrow> real"
  shows "fold (\<lambda>d ll. ll + h d) ds a = a + (\<Sum>d\<leftarrow>ds. h d)"
  by (induction ds arbitrary: a) simp_all

lemma fold_skip_upt:
  fixes g :: "nat \<Rightarrow> real"
  shows "fold (\<lambda>v ll. if c v then ll else ll + g v) [0..<n] a
         = a + (\<Sum>v | v < n \<and> \<not> c v. g v)"
proof (induction n)
  case 0
  show ?case by simp
next
  case (Suc n)
  have s: "{v. v < Suc n \<and> \<not> c v} = (if c n then {v. v < n \<and> \<not> c v}
                                         else insert n {v. v < n \<and> \<not> c v})"
    by (auto simp: less_Suc_eq)
  show ?case using Suc by (simp add: s)
qed

lemma getLLDocs_eq: "getLLDocs X m ds = spec_ll_docs X m ds"
proof -
  have "getLLDocs X m ds
        = fold (\<lambda>d ll. ll + (lgammaT X (sum_list (alphas m))
               - lgammaT X (getSumWordWeight (tw m) d + sum_list (alphas m))
               + (\<Sum>k<K m. lgammaT X (doc_numByTopic d ! k + alphas m ! k)
                           - lgammaT X (alphas m ! k)))) ds 0"
    unfolding getLLDocs_def Let_def
    by (rule arg_cong [where f = "\<lambda>f. fold f ds 0"]) (simp add: fun_eq_iff fold_plus_upt)
  then show ?thesis by (simp add: fold_docs_sum spec_ll_docs_def)
qed

lemma getLLRest_eq:
  assumes "\<forall>k<K m. \<forall>v<realV m. 0 \<le> numByTopicWord S ! k ! v"
  shows "getLLRest X m S = spec_ll_topic_word X m S"
proof -
  have inner: "fold (\<lambda>v ll2. if numByTopicWord S ! k ! v = 0 then ll2
                          else ll2 + (lgammaT X (numByTopicWord S ! k ! v + eta m) - lgammaT X (eta m)))
                 [0..<realV m] a
               = a + (\<Sum>v | v < realV m \<and> 0 < numByTopicWord S ! k ! v.
                        lgammaT X (numByTopicWord S ! k ! v + eta m) - lgammaT X (eta m))"
    if "k < K m" for k a
  proof -
    have "{v. v < realV m \<and> numByTopicWord S ! k ! v \<noteq> 0}
          = {v. v < realV m \<and> 0 < numByTopicWord S ! k ! v}"
      using assms that by (auto simp: less_le)
    then show ?thesis by (simp add: fold_skip_upt)
  qed
  define g where "g k = - lgammaT X (numByTopic S ! k + real (realV m) * eta m)
                 + (\<Sum>v | v < realV m \<and> 0 < numByTopicWord S ! k ! v.
                      lgammaT X (numByTopicWord S ! k ! v + eta m) - lgammaT X (eta m))" for k
  have outer: "n \<le> K m \<Longrightarrow>
      fold (\<lambda>k ll.
                 let ll1 = ll - lgammaT X (numByTopic S ! k + real (realV m) * eta m)
                 in fold (\<lambda>v ll2. if numByTopicWord S ! k ! v = 0 then ll2
                                    else ll2 + (lgammaT X (numByTopicWord S ! k ! v + eta m)
                                                - lgammaT X (eta m)))
                         [0..<realV m] ll1)
              [0..<n] a = a + (\<Sum>k<n. g k)" for n a
    by (induction n) (simp_all add: inner g_def Let_def)
  show ?thesis
    unfolding getLLRest_def Let_def spec_ll_topic_word_def
    using outer [of "K m"] by (simp add: g_def mult.commute)
qed

text \<open>
  C9. \<open>log_likelihood()\<close> (\<^verbatim>\<open>getLL\<close>) is the sum of the document part and of the
  topic-word part of section 4.5, for the documents and the global state of the model.
  The code skips the entries of \<open>numByTopicWord\<close> that are zero; with counts that are not
  negative (property P6) these are the entries that are not positive.
\<close>

theorem getLL_formula:
  assumes "\<forall>k<K m. \<forall>v<realV m. 0 \<le> numByTopicWord (globalState m) ! k ! v"
  shows "getLL X m = spec_ll_docs X m (docs m) + spec_ll_topic_word X m (globalState m)"
  by (simp add: getLL_def getLLDocs_eq getLLRest_eq [OF assms])

lemma getLL_m1: "getLL ext0 m1 = - 2 / 5"
  by (simp add: getLL_def getLLDocs_def getLLRest_def Let_def ext0_sel m1_def d1_def
      getSumWordWeight_def upt_0_2 numeral_2_eq_2)

theorem getLL_formula_witness:
  "0 \<le> numByTopicWord (globalState m1) ! 0 ! 0 \<and> 0 \<le> numByTopicWord (globalState m1) ! 1 ! 0
   \<and> K m1 = 2 \<and> realV m1 = 1
   \<and> getLL ext0 m1 = - 2 / 5
   \<and> spec_ll_docs ext0 m1 (docs m1) + spec_ll_topic_word ext0 m1 (globalState m1) = - 2 / 5"
proof -
  have h: "\<forall>k<K m1. \<forall>v<realV m1. 0 \<le> numByTopicWord (globalState m1) ! k ! v"
    by (simp add: m1_def numeral_2_eq_2 less_Suc_eq)
  show ?thesis
    using getLL_formula [OF h, of ext0] getLL_m1 by (simp add: m1_def)
qed

subsection \<open>Inference leaves the model's state alone\<close>

lemma fold_keeps:
  "(\<And>x s. h (f x s) = h s) \<Longrightarrow> h (fold f xs s) = h s"
  by (induction xs arbitrary: s) simp_all

lemma store_locals_other:
  "(\<And>i. a \<noteq> LocalData i) \<Longrightarrow> store_locals ls \<sigma> a = \<sigma> a"
  unfolding store_locals_def
  by (rule fold_keeps [where h = "\<lambda>s. s a"]) simp

lemma infer_init_frame:
  "fst (snd (infer_init X m g j s)) GlobalState = fst (snd s) GlobalState"
  by (cases s) (simp add: infer_init_def split: prod.splits)

lemma infer_round_frame:
  "fst (snd (infer_round X m W sched i s)) GlobalState = fst (snd s) GlobalState"
  by (cases s) (simp add: infer_round_def Let_def store_locals_other split: prod.splits)

lemma infer_together_frame:
  "fst (infer_together X m sched ds maxIter W \<sigma>) GlobalState = \<sigma> GlobalState"
proof -
  define \<sigma>1 where "\<sigma>1 = \<sigma>(TmpState := \<sigma> GlobalState, TState := \<sigma> GlobalState)"
  define s2 where "s2 = fold (infer_init X m (makeGeneratorForInit X m)) [0..<length ds]
                          (ds, \<sigma>1, default_rg X)"
  define \<sigma>3 where "\<sigma>3 = store_locals (replicate W (fst (snd s2) TmpState)) (fst (snd s2))"
  define rr where "rr = fold (\<lambda>i (rs, r). let (s, r') = rand_raw X r in (rs @ [seed_rg X s], r'))
                             [0..<W] ([], snd (snd s2))"
  define s4 where "s4 = fold (infer_round X m W sched) [0..<maxIter] (fst s2, \<sigma>3, fst rr)"
  have a: "fst (snd s2) GlobalState = \<sigma> GlobalState"
    unfolding s2_def
    by (subst fold_keeps [where h = "\<lambda>s. fst (snd s) GlobalState"])
      (simp_all add: infer_init_frame \<sigma>1_def)
  have b: "\<sigma>3 GlobalState = \<sigma> GlobalState"
    by (simp add: \<sigma>3_def store_locals_other a)
  have c: "fst (snd s4) GlobalState = \<sigma> GlobalState"
    unfolding s4_def
    by (subst fold_keeps [where h = "\<lambda>s. fst (snd s) GlobalState"])
      (simp_all add: infer_round_frame b)
  have "fst (infer_together X m sched ds maxIter W \<sigma>) = fst (snd s4)"
    by (simp add: infer_together_def Let_def s4_def \<sigma>3_def rr_def s2_def \<sigma>1_def
        split: prod.splits)
  then show ?thesis using c by simp
qed

lemma infer_task_frame:
  "fst (infer_task X m g gll maxIter j s) GlobalState = fst s GlobalState"
proof -
  obtain \<sigma> ds ret where s: "s = (\<sigma>, ds, ret)" by (cases s) auto
  define \<sigma>1 where "\<sigma>1 = \<sigma>(TaskTmpState j := \<sigma> GlobalState)"
  define i1 where "i1 = initializeDocState X m (ds ! j) g (\<sigma>1 (TaskTmpState j)) (default_rg X)"
  define s3 where "s3 = fold (\<lambda>i (d, \<sigma>', r).
                              let (d', ld', r') = sampleDocument X m d (\<sigma>' (TaskTmpState j)) r
                              in (d', \<sigma>'(TaskTmpState j := ld'), r'))
                          [0..<maxIter] (fst i1, \<sigma>1(TaskTmpState j := fst (snd i1)), snd (snd i1))"
  have "fst (snd s3) GlobalState = (\<sigma>1(TaskTmpState j := fst (snd i1))) GlobalState"
    unfolding s3_def
    by (subst fold_keeps [where h = "\<lambda>s. fst (snd s) GlobalState"])
      (simp_all split: prod.splits)
  then have c: "fst (snd s3) GlobalState = \<sigma> GlobalState" by (simp add: \<sigma>1_def)
  have "fst (infer_task X m g gll maxIter j s) = fst (snd s3)"
    by (simp add: s infer_task_def Let_def s3_def i1_def \<sigma>1_def split: prod.splits)
  then show ?thesis using c by (simp add: s)
qed

lemma infer_separate_frame:
  "fst (infer_separate X m ds maxIter \<sigma>) GlobalState = \<sigma> GlobalState"
  unfolding infer_separate_def Let_def
  by (subst fold_keeps [where h = "\<lambda>s. fst s GlobalState"]) (simp_all add: infer_task_frame)

text \<open>
  C8. \<^verbatim>\<open>_infer\<close>, in the joint and in the independent mode, for every number of
  iterations, every number of workers, every schedule of the pool and every held-out
  document, returns with the member \<open>globalState\<close> of the model as it was at the call:
  every write of the initialisation, of the sampling and of the merge goes to a temporary
  state.
\<close>

theorem infer_keeps_globalState:
  "fst (infer X m together sched ds maxIter tolerance numWorkers) GlobalState = globalState m"
  by (simp add: infer_def Let_def infer_together_frame infer_separate_frame)

text \<open>The writes do happen, on the temporary state: inference on the fresh document
  \<open>d_fresh\<close> in the independent mode changes the state of its task and the document.\<close>

lemma initializeDocState_m1_fresh_at:
  "initializeDocState ext0 m1 d_fresh (makeGeneratorForInit ext0 m1) (globalState m1) r
   = (d_oov, \<lparr>zLikelihood = [0, 0], numByTopic = [2, 1], numByTopicWord = [[2], [1]]\<rparr>, Suc r)"
  by (simp add: initializeDocState_def prepareDoc_def termFreq_def initToken_def
      updateStateWithDoc_def addWordTo_def makeGeneratorForInit_def Let_def ext0_sel
      m1_def d_fresh_def d_oov_def upt_0_2 numeral_2_eq_2)

lemma infer_writes_temporary:
  "fst (infer ext0 m1 False sched [d_fresh] 0 tolerance 1) (TaskTmpState 0)
     = \<lparr>zLikelihood = [0, 0], numByTopic = [2, 1], numByTopicWord = [[2], [1]]\<rparr>
   \<and> fst (infer ext0 m1 False sched [d_fresh] 0 tolerance 1) GlobalState
     = \<lparr>zLikelihood = [0, 0], numByTopic = [2, 0], numByTopicWord = [[2], [0]]\<rparr>
   \<and> fst (snd (infer ext0 m1 False sched [d_fresh] 0 tolerance 1)) = [d_oov]"
proof -
  have g: "globalState m1 = \<lparr>zLikelihood = [0, 0], numByTopic = [2, 0], numByTopicWord = [[2], [0]]\<rparr>"
    by (simp add: m1_def)
  show ?thesis
    by (simp add: infer_def infer_separate_def infer_task_def Let_def ext0_sel
        initializeDocState_m1_fresh_at g [symmetric])
qed

subsection \<open>The total weight of a document and where it is used\<close>


















end
